theory Spec2Isabelle
  imports Main
begin

section \<open>The page controller of the GraphRAG front end\<close>

text \<open>
  The repository holds three versions of one browser script: \<^verbatim>\<open>src/index.js\<close> (plain
  JavaScript), the TypeScript original (\<^verbatim>\<open>src/unnamed/part_000\<close>) and the enhanced
  review version (\<^verbatim>\<open>src/unnamed/part_001\<close>). The functions they share are embedded
  once; where a version differs, its function gets a suffix (\<open>_ts\<close> for the
  TypeScript original, \<open>_enhanced\<close> for the enhanced version).

  Conventions of the embedding.
  \<^item> A string is a list of bytes; the non-ASCII characters of the source's literals are
    written as their UTF-8 bytes. \<open>trim\<close> removes ASCII white space and \<open>toLowerCase\<close>
    maps ASCII letters.
  \<^item> A JavaScript number is an \<open>int\<close> (the integral values).
  \<^item> The JSON bodies of the backend follow the shapes the script reads (and the
    \<^verbatim>\<open>GraphRAGDocument\<close> interface of the TypeScript original): an object whose fields
    are each absent or of the expected type, the JSON value \<^verbatim>\<open>null\<close>, or a body that
    is not JSON at all.
  \<^item> An \<^verbatim>\<open>async\<close> function is run to completion: every \<^verbatim>\<open>await\<close> is answered at
    once by the environment (the backend as a function of the requests sent so far, the
    file contents as fields of the file).
  \<^item> A thrown value is a result \<open>Inl e\<close>; the page state that was written before the
    throw is kept, as in the source.
  \<^item> \<^verbatim>\<open>console.log\<close> and scroll positions are left out; \<^verbatim>\<open>console.error\<close>, alert
    dialogs and HTTP requests are recorded in the state in the order they happen. The
    requests are those the script causes itself: the \<^verbatim>\<open>fetch\<close> of \<^verbatim>\<open>apiCall\<close> and, in the
    TypeScript original, the loading of the PDF.js worker. What the browser would load for
    markup that is assigned to \<^verbatim>\<open>innerHTML\<close> is not modelled.
\<close>

subsection \<open>Strings\<close>

definition is_space :: "char \<Rightarrow> bool" where
  "is_space c = (c \<in> set [CHR 0x09, CHR 0x0A, CHR 0x0B, CHR 0x0C, CHR 0x0D, CHR 0x20])"

text \<open>\<^verbatim>\<open>s.trim()\<close>\<close>
definition trim :: "string \<Rightarrow> string" where
  "trim s = rev (dropWhile is_space (rev (dropWhile is_space s)))"

text \<open>\<^verbatim>\<open>s.replace(/\n/g, '<br>')\<close>\<close>
definition br_of_newline :: "string \<Rightarrow> string" where
  "br_of_newline s = concat (map (\<lambda>c. if c = CHR 0x0A then ''<br>'' else [c]) s)"

text \<open>\<^verbatim>\<open>s.replace(/<br>/g, '\n')\<close>\<close>
fun newline_of_br :: "string \<Rightarrow> string" where
  "newline_of_br [] = []"
| "newline_of_br (x # xs) =
     (if take 4 (x # xs) = ''<br>'' then CHR 0x0A # newline_of_br (drop 3 xs)
      else x # newline_of_br xs)"

definition lower_char :: "char \<Rightarrow> char" where
  "lower_char c =
     (if 65 \<le> (of_char c :: nat) \<and> (of_char c :: nat) \<le> 90
      then char_of ((of_char c :: nat) + 32) else c)"

definition toLowerCase :: "string \<Rightarrow> string" where
  "toLowerCase s = map lower_char s"

text \<open>\<^verbatim>\<open>name.split('.').pop()\<close>: what follows the last dot, the whole name without one.\<close>
definition split_pop :: "string \<Rightarrow> string" where
  "split_pop s = rev (takeWhile (\<lambda>c. c \<noteq> CHR ''.'') (rev s))"

text \<open>The decimal digit \<open>d\<close>, for \<open>d < 10\<close>.\<close>
definition digit_char :: "nat \<Rightarrow> char" where
  "digit_char d = ''0123456789'' ! d"

fun show_nat :: "nat \<Rightarrow> string" where
  "show_nat n = (if n < 10 then [digit_char n] else show_nat (n div 10) @ [digit_char (n mod 10)])"

declare show_nat.simps [simp del]

text \<open>A number inside a template literal.\<close>
definition show_int :: "int \<Rightarrow> string" where
  "show_int i = (if i < 0 then ''-'' @ show_nat (nat (- i)) else show_nat (nat i))"

text \<open>\<^verbatim>\<open>xs.join(sep)\<close>\<close>
fun join :: "string \<Rightarrow> string list \<Rightarrow> string" where
  "join sep [] = []"
| "join sep [x] = x"
| "join sep (x # y # ys) = x @ sep @ join sep (y # ys)"

text \<open>\<^verbatim>\<open>v || fallback\<close> for a string \<open>v\<close> that may be \<^verbatim>\<open>undefined\<close>.\<close>
definition or_else :: "string option \<Rightarrow> string \<Rightarrow> string" where
  "or_else v fallback = (case v of None \<Rightarrow> fallback | Some t \<Rightarrow> if t = [] then fallback else t)"

text \<open>The literals of the source that are not ASCII, as UTF-8 bytes.\<close>
definition check_mark :: string where "check_mark = [CHR 0xE2, CHR 0x9C, CHR 0x85]"
definition cross_mark :: string where "cross_mark = [CHR 0xE2, CHR 0x9D, CHR 0x8C]"
definition clipboard_mark :: string where "clipboard_mark = [CHR 0xF0, CHR 0x9F, CHR 0x93, CHR 0x8B]"
definition books_mark :: string where "books_mark = [CHR 0xF0, CHR 0x9F, CHR 0x93, CHR 0x9A]"
definition magnifier_mark :: string where "magnifier_mark = [CHR 0xF0, CHR 0x9F, CHR 0x94, CHR 0x8D]"
definition writing_mark :: string where
  "writing_mark = [CHR 0xE2, CHR 0x9C, CHR 0x8D, CHR 0xEF, CHR 0xB8, CHR 0x8F]"
definition chart_mark :: string where "chart_mark = [CHR 0xF0, CHR 0x9F, CHR 0x93, CHR 0x8A]"
definition target_mark :: string where "target_mark = [CHR 0xF0, CHR 0x9F, CHR 0x8E, CHR 0xAF]"
definition trend_mark :: string where "trend_mark = [CHR 0xF0, CHR 0x9F, CHR 0x93, CHR 0x88]"

subsection \<open>The backend's JSON and the browser\<close>

text \<open>\<^verbatim>\<open>interface GraphRAGDocument\<close>\<close>
record document =
  filename :: string
  path :: string
  chunks :: int
  processed_at :: string

record research_question =
  question :: string

text \<open>One entry of \<^verbatim>\<open>result.process.phases\<close>, with the fields \<^verbatim>\<open>processReviewPhases\<close> reads.\<close>
record phase =
  phase_name :: string
  research_questions :: "research_question list option"
  sources_found :: "int option"
  sources_by_type :: "(string \<times> int) list option"
  themes_identified :: "int option"
  major_themes :: "string list option"
  sections_written :: "int option"
  total_word_count :: "int option"
  writing_principles :: "string list option"

record process =
  phases :: "phase list option"

text \<open>A JSON object of the backend: every field the script reads, absent (\<open>None\<close>) or present.\<close>
record payload =
  body_message :: "string option"
  body_status :: "string option"
  body_documents :: "document list option"
  body_answer :: "string option"
  body_process :: "process option"
  body_final_review :: "string option"
  body_refined_section :: "string option"
  body_improvements_made :: "(string \<times> string) list option"

datatype json = JsonNull | JsonObj payload

text \<open>What \<^verbatim>\<open>response.json()\<close> finds: a parse error with the engine's message, or a value.\<close>
datatype body = NotJson string | Json json

text \<open>\<^verbatim>\<open>fetch\<close> rejects (no connection), or resolves with a status and a body.\<close>
datatype fetch_result = Rejected string | Response nat body

text \<open>\<^verbatim>\<open>response.ok\<close>\<close>
definition response_ok :: "nat \<Rightarrow> bool" where
  "response_ok st = (200 \<le> st \<and> st \<le> 299)"

record request =
  req_method :: string
  req_url :: string
  req_headers :: "(string \<times> string) list"
  req_body :: "(string \<times> string) list option"

datatype thrown =
    Error string
  | TypeError string
  | SyntaxError string
  | ReferenceError string
  | ProgressEvent

text \<open>\<^verbatim>\<open>${error.message}\<close>: the event a \<^verbatim>\<open>FileReader\<close> rejects with has no message.\<close>
fun error_message :: "thrown \<Rightarrow> string" where
  "error_message (Error m) = m"
| "error_message (TypeError m) = m"
| "error_message (SyntaxError m) = m"
| "error_message (ReferenceError m) = m"
| "error_message ProgressEvent = ''undefined''"

text \<open>
  What the page does not compute itself: the backend (its answer to the last request of
  the log it is given), \<^verbatim>\<open>new Date(s).toLocaleString()\<close>, the \<^verbatim>\<open>innerText\<close> the browser
  derives from an element's HTML, what \<^verbatim>\<open>document.execCommand\<close> makes of the editor's
  HTML, and \<^verbatim>\<open>Date.now()\<close>.
\<close>
record browser =
  server :: "request list \<Rightarrow> fetch_result"
  toLocaleString :: "string \<Rightarrow> string"
  innerText :: "string \<Rightarrow> string"
  execCommand :: "string \<Rightarrow> string \<Rightarrow> string"
  now :: nat

text \<open>
  A \<^verbatim>\<open>File\<close>: its name and type, and what reading it gives: its text, its data URL, its
  bytes (\<^verbatim>\<open>arrayBuffer()\<close>, of which only success or failure matters), and the text items
  of its pages when PDF.js opens the bytes and reads every page.
\<close>
record js_file =
  file_name :: string
  file_type :: string
  file_text :: "thrown + string"
  file_dataURL :: "thrown + string"
  file_arrayBuffer :: "thrown + unit"
  file_pdf :: "thrown + string option list list"

subsection \<open>The page state\<close>

datatype elem =
    ArticleInput | ProcessButton | KnowledgeBaseContainer | FileInput | FileNameDisplay
  | LiteratureReviewSection | ReviewTopicInput | GenerateReviewButton
  | ReviewGenerationProgress | ReviewDraftOutput
  | WritingAssistantSection | WritingEditor | AnalyzeTextButton | SuggestionsPanel
  | SimilarityCheckButton
  | QaSection | QuestionInput | ChatButton
  | Loader | LoaderText
  | CurrentPhaseText | PhaseProgressFill | SectionRefinementControls | RefinementFeedback

record button =
  label :: string
  data_index :: "string option"
  data_section :: "string option"
  active :: bool

datatype sender = user | model

text \<open>
  The script's four variables, the elements it holds (which carry the class \<^verbatim>\<open>hidden\<close>,
  which are disabled, the value or text or HTML of each, the checked radio input of each
  group, which of the elements looked up by id on demand are missing), the children of
  its four containers, and the record of what the user and the network have seen.
\<close>
record page =
  isLoading :: bool
  documents :: "document list"
  currentFileName :: string
  draftHistory :: "string option list"
  hidden :: "elem set"
  disabled :: "elem set"
  content :: "elem \<Rightarrow> string"
  checked :: "string \<Rightarrow> string option"
  absent :: "elem set"
  knowledgeList :: "string list"
  reviewProgressLog :: "string list"
  draftVersionControls :: "button list"
  chatContainer :: "(string \<times> sender) list"
  focused :: "elem option"
  alerts :: "string list"
  console_errors :: "(string \<times> thrown) list"
  requests :: "request list"

subsection \<open>Statements that may throw\<close>

type_synonym 'a act = "page \<Rightarrow> (thrown + 'a) \<times> page"

definition ret :: "'a \<Rightarrow> 'a act" where
  "ret x s = (Inr x, s)"

definition throw :: "thrown \<Rightarrow> 'a act" where
  "throw e s = (Inl e, s)"

definition bnd :: "'a act \<Rightarrow> ('a \<Rightarrow> 'b act) \<Rightarrow> 'b act" where
  "bnd m f s = (case m s of (Inl e, s') \<Rightarrow> (Inl e, s') | (Inr x, s') \<Rightarrow> f x s')"

definition seq :: "unit act \<Rightarrow> 'b act \<Rightarrow> 'b act" where
  "seq m n = bnd m (\<lambda>_. n)"

text \<open>An assignment to the page.\<close>
definition upd :: "(page \<Rightarrow> page) \<Rightarrow> unit act" where
  "upd f s = (Inr (), f s)"

text \<open>\<^verbatim>\<open>try { m } catch (error) { h error }\<close>\<close>
definition try_catch :: "'a act \<Rightarrow> (thrown \<Rightarrow> 'a act) \<Rightarrow> 'a act" where
  "try_catch m h s = (case m s of (Inl e, s') \<Rightarrow> h e s' | (Inr x, s') \<Rightarrow> (Inr x, s'))"

text \<open>\<^verbatim>\<open>try { m } finally { fin }\<close>: \<open>fin\<close> runs on both ways out; a throw of \<open>fin\<close> wins.\<close>
definition try_finally :: "'a act \<Rightarrow> unit act \<Rightarrow> 'a act" where
  "try_finally m fin s =
     (case m s of (r, s') \<Rightarrow>
        (case fin s' of (Inl e, s'') \<Rightarrow> (Inl e, s'') | (Inr _, s'') \<Rightarrow> (r, s'')))"

text \<open>\<^verbatim>\<open>await p\<close> for a promise of the environment that has settled.\<close>
definition await :: "thrown + 'a \<Rightarrow> 'a act" where
  "await r = (case r of Inl e \<Rightarrow> throw e | Inr x \<Rightarrow> ret x)"

text \<open>\<^verbatim>\<open>result.f\<close>: reading a property of \<^verbatim>\<open>null\<close> throws.\<close>
definition field :: "(payload \<Rightarrow> 'a) \<Rightarrow> json \<Rightarrow> 'a act" where
  "field f j =
     (case j of JsonNull \<Rightarrow> throw (TypeError ''Cannot read properties of null'')
      | JsonObj p \<Rightarrow> ret (f p))"

definition alert :: "string \<Rightarrow> unit act" where
  "alert m = upd (\<lambda>s. s\<lparr>alerts := alerts s @ [m]\<rparr>)"

definition console_error :: "string \<Rightarrow> thrown \<Rightarrow> unit act" where
  "console_error m e = upd (\<lambda>s. s\<lparr>console_errors := console_errors s @ [(m, e)]\<rparr>)"

text \<open>\<^verbatim>\<open>el.value = v\<close>, \<^verbatim>\<open>el.textContent = v\<close>, \<^verbatim>\<open>el.innerHTML = v\<close>\<close>
definition set_content :: "elem \<Rightarrow> string \<Rightarrow> unit act" where
  "set_content el v = upd (\<lambda>s. s\<lparr>content := (content s)(el := v)\<rparr>)"

text \<open>Putting an element into a set of marked elements (\<open>b\<close>) or taking it out.\<close>
definition marked :: "elem \<Rightarrow> bool \<Rightarrow> elem set \<Rightarrow> elem set" where
  "marked el b S = (if b then insert el S else S - {el})"

text \<open>\<^verbatim>\<open>el.classList.toggle('hidden', b)\<close>\<close>
definition toggle_hidden :: "elem \<Rightarrow> bool \<Rightarrow> unit act" where
  "toggle_hidden el b = upd (\<lambda>s. s\<lparr>hidden := marked el b (hidden s)\<rparr>)"

text \<open>\<^verbatim>\<open>el.classList.remove('hidden')\<close>\<close>
definition unhide :: "elem \<Rightarrow> unit act" where
  "unhide el = toggle_hidden el False"

text \<open>\<^verbatim>\<open>el.disabled = b\<close>\<close>
definition set_disabled :: "elem \<Rightarrow> bool \<Rightarrow> unit act" where
  "set_disabled el b = upd (\<lambda>s. s\<lparr>disabled := marked el b (disabled s)\<rparr>)"

subsection \<open>\<^verbatim>\<open>setLoading\<close> and \<^verbatim>\<open>apiCall\<close>\<close>

definition setLoading :: "bool \<Rightarrow> string \<Rightarrow> unit act" where
  "setLoading loading text =
     seq (upd (\<lambda>s. s\<lparr>isLoading := loading\<rparr>))
    (seq (toggle_hidden Loader (\<not> loading))
    (seq (set_content LoaderText text)
    (seq (\<lambda>s. set_disabled ProcessButton (loading \<or> content s ArticleInput = []) s)
    (seq (set_disabled FileInput loading)
    (seq (\<lambda>s. set_disabled GenerateReviewButton (loading \<or> length (documents s) = 0) s)
    (seq (set_disabled AnalyzeTextButton loading)
    (seq (set_disabled SimilarityCheckButton loading)
    (seq (\<lambda>s. set_disabled QuestionInput (loading \<or> length (documents s) = 0) s)
         (\<lambda>s. set_disabled ChatButton (loading \<or> length (documents s) = 0) s)))))))))"

text \<open>The default of the parameter \<^verbatim>\<open>text\<close>.\<close>
definition Processing :: string where
  "Processing = ''Processing...''"

definition API_BASE :: string where
  "API_BASE = ''/api''"

text \<open>The \<^verbatim>\<open>options\<close> object and the URL that \<^verbatim>\<open>apiCall\<close> hands to \<^verbatim>\<open>fetch\<close>.\<close>
definition api_request :: "string \<Rightarrow> string \<Rightarrow> (string \<times> string) list option \<Rightarrow> request" where
  "api_request endpoint method data =
     \<lparr>req_method = method, req_url = API_BASE @ endpoint,
      req_headers = [(''Content-Type'', ''application/json'')],
      req_body = data\<rparr>"

text \<open>\<^verbatim>\<open>await fetch(url, options)\<close>: the request goes out and the backend answers.\<close>
definition fetch :: "browser \<Rightarrow> request \<Rightarrow> fetch_result act" where
  "fetch env req s =
     (let s' = s\<lparr>requests := requests s @ [req]\<rparr> in (Inr (server env (requests s')), s'))"

text \<open>\<^verbatim>\<open>response.json()\<close>\<close>
definition response_json :: "body \<Rightarrow> thrown + json" where
  "response_json b = (case b of NotJson m \<Rightarrow> Inl (SyntaxError m) | Json j \<Rightarrow> Inr j)"

text \<open>\<^verbatim>\<open>{ message: 'Unknown error' }\<close>\<close>
definition unknown_error :: payload where
  "unknown_error =
     \<lparr>body_message = Some ''Unknown error'', body_status = None, body_documents = None,
      body_answer = None, body_process = None, body_final_review = None,
      body_refined_section = None, body_improvements_made = None\<rparr>"

text \<open>
  What \<^verbatim>\<open>apiCall\<close> does with the settled \<^verbatim>\<open>fetch\<close> (its last six lines): the value it
  returns (\<open>Inr\<close>) or throws (\<open>Inl\<close>). A rejected \<^verbatim>\<open>fetch\<close> is thrown on by \<^verbatim>\<open>await\<close>.
\<close>
definition apiCall_result :: "fetch_result \<Rightarrow> thrown + json" where
  "apiCall_result response =
     (case response of
        Rejected m \<Rightarrow> Inl (TypeError m)
      | Response st b \<Rightarrow>
          if \<not> response_ok st then
            (let errorData = (case response_json b of Inl _ \<Rightarrow> JsonObj unknown_error
                              | Inr j \<Rightarrow> j)
             in case errorData of
                  JsonNull \<Rightarrow> Inl (TypeError ''Cannot read properties of null (reading 'message')'')
                | JsonObj p \<Rightarrow> Inl (Error (or_else (body_message p) (''HTTP '' @ show_nat st))))
          else response_json b)"

definition apiCall :: "browser \<Rightarrow> string \<Rightarrow> string \<Rightarrow> (string \<times> string) list option \<Rightarrow> json act" where
  "apiCall env endpoint method data =
     bnd (fetch env (api_request endpoint method data)) (\<lambda>response.
       await (apiCall_result response))"

text \<open>Reading the page.\<close>
definition get :: "(page \<Rightarrow> 'a) \<Rightarrow> 'a act" where
  "get f s = (Inr (f s), s)"

text \<open>\<^verbatim>\<open>if (c) { m }\<close>\<close>
definition if_then :: "bool \<Rightarrow> unit act \<Rightarrow> unit act" where
  "if_then c m = (if c then m else ret ())"

text \<open>\<^verbatim>\<open>xs.forEach(f)\<close>\<close>
primrec for_each :: "('a \<Rightarrow> unit act) \<Rightarrow> 'a list \<Rightarrow> unit act" where
  "for_each f [] = ret ()"
| "for_each f (x # xs) = seq (f x) (for_each f xs)"

subsection \<open>Documents\<close>

definition document_card :: "browser \<Rightarrow> document \<Rightarrow> string" where
  "document_card env doc =
     ''\<newline>            <h4>'' @ filename doc @ ''</h4>\<newline>            <p><strong>Chunks:</strong> ''
     @ show_int (chunks doc) @ '' | <strong>Processed:</strong> ''
     @ toLocaleString env (processed_at doc)
     @ ''</p>\<newline>            <p><strong>Path:</strong> '' @ path doc @ ''</p>\<newline>        ''"

text \<open>The list \<open>knowledgeList\<close> holds the \<^verbatim>\<open>innerHTML\<close> of each card, in order.\<close>
definition renderDocuments :: "browser \<Rightarrow> unit act" where
  "renderDocuments env =
     seq (upd (\<lambda>s. s\<lparr>knowledgeList := []\<rparr>))
    (bnd (get documents) (\<lambda>docs.
     seq (if_then (length docs > 0)
            (seq (unhide KnowledgeBaseContainer)
            (seq (unhide LiteratureReviewSection)
                 (unhide QaSection))))
         (for_each (\<lambda>doc. upd (\<lambda>s. s\<lparr>knowledgeList := knowledgeList s @ [document_card env doc]\<rparr>))
            docs)))"

definition loadDocuments :: "browser \<Rightarrow> unit act" where
  "loadDocuments env =
     try_catch
       (bnd (apiCall env ''/documents'' ''GET'' None) (\<lambda>result.
        bnd (field body_documents result) (\<lambda>ds.
        seq (upd (\<lambda>s. s\<lparr>documents := (case ds of Some d \<Rightarrow> d | None \<Rightarrow> [])\<rparr>))
       (seq (renderDocuments env)
       (bnd (get documents) (\<lambda>docs.
            if_then (length docs > 0)
              (seq (set_disabled QuestionInput False)
              (seq (set_disabled ChatButton False)
              (seq (set_disabled GenerateReviewButton False)
              (seq (unhide QaSection)
                   (unhide LiteratureReviewSection)))))))))))
       (\<lambda>error. console_error ''Error loading documents:'' error)"

definition checkSystemStatus :: "browser \<Rightarrow> bool act" where
  "checkSystemStatus env =
     try_catch
       (bnd (apiCall env ''/status'' ''GET'' None) (\<lambda>result.
        bnd (field body_status result) (\<lambda>st.
          if st = Some ''ready'' then seq (loadDocuments env) (ret True)
          else ret False)))
       (\<lambda>error. seq (console_error (cross_mark @ '' System not ready:'') error) (ret False))"

text \<open>The versions name different ports in the alert: 5001, and 5000 in the TypeScript original.\<close>
definition initializeApp_port :: "string \<Rightarrow> browser \<Rightarrow> unit act" where
  "initializeApp_port port env =
     seq (setLoading True ''Connecting to GraphRAG system...'')
       (try_finally
          (try_catch
             (bnd (checkSystemStatus env) (\<lambda>isReady. ret ()))
             (\<lambda>error.
                seq (console_error (cross_mark @ '' Error connecting to GraphRAG:'') error)
                    (alert (''Could not connect to GraphRAG system. Make sure the backend is running on port ''
                            @ port @ ''.''))))
          (setLoading False Processing))"

definition initializeApp :: "browser \<Rightarrow> unit act" where
  "initializeApp env = initializeApp_port ''5001'' env"

definition initializeApp_ts :: "browser \<Rightarrow> unit act" where
  "initializeApp_ts env = initializeApp_port ''5000'' env"

subsection \<open>Adding a document\<close>

definition handleProcessArticle :: "browser \<Rightarrow> unit act" where
  "handleProcessArticle env =
     bnd (get (\<lambda>s. trim (content s ArticleInput))) (\<lambda>articleText.
       if articleText = [] then
         alert ''Please paste text into the text area or upload a file.''
       else
         bnd (get (\<lambda>s. if currentFileName s \<noteq> [] then currentFileName s
                        else ''Manual_Entry_'' @ show_nat (now env) @ ''.txt'')) (\<lambda>docName.
         seq (setLoading True (''Adding '' @ docName @ '' to GraphRAG...''))
           (try_finally
              (try_catch
                 (bnd (apiCall env ''/add_document'' ''POST''
                         (Some [(''content'', articleText), (''filename'', docName)])) (\<lambda>result.
                  seq (loadDocuments env)
                 (seq (set_content ArticleInput [])
                 (seq (set_content FileInput [])
                 (seq (set_content FileNameDisplay [])
                 (seq (upd (\<lambda>s. s\<lparr>currentFileName := []\<rparr>))
                      (alert (check_mark @ '' Successfully added \"'' @ docName
                              @ ''\" to GraphRAG system!''))))))))
                 (\<lambda>error.
                    seq (console_error ''Error adding document:'' error)
                        (alert (cross_mark @ '' Error adding document: '' @ error_message error))))
              (setLoading False Processing))))"

text \<open>The PDF and the Word branch of a single selected file (\<^verbatim>\<open>src/index.js\<close>).\<close>
definition upload_single :: "browser \<Rightarrow> js_file \<Rightarrow> string \<Rightarrow> string \<Rightarrow> unit act" where
  "upload_single env file ftype success =
     bnd (await (file_dataURL file)) (\<lambda>base64.
     bnd (apiCall env ''/add_document'' ''POST''
            (Some [(''content'', base64), (''filename'', file_name file), (''file_type'', ftype)]))
       (\<lambda>result.
     seq (alert success)
    (seq (loadDocuments env)
    (seq (set_content FileInput [])
    (seq (set_content FileNameDisplay [])
    (seq (upd (\<lambda>s. s\<lparr>currentFileName := []\<rparr>))
         (setLoading False Processing)))))))"

text \<open>The \<^verbatim>\<open>try\<close> block for a single selected file (\<^verbatim>\<open>src/index.js\<close>).\<close>
definition file_one_try :: "browser \<Rightarrow> js_file \<Rightarrow> unit act" where
  "file_one_try env file =
     (let fileExtension = toLowerCase (split_pop (file_name file)) in
      if file_type file = ''application/pdf'' \<or> fileExtension = ''pdf'' then
        upload_single env file ''pdf''
          (check_mark @ '' PDF file \"'' @ file_name file @ ''\" uploaded successfully!'')
      else if fileExtension = ''docx'' \<or> fileExtension = ''doc'' then
        upload_single env file ''docx''
          (check_mark @ '' Word document \"'' @ file_name file @ ''\" uploaded successfully!'')
      else
        bnd (await (file_text file)) (\<lambda>fullText.
          set_content ArticleInput (trim fullText)))"

definition handleFileSelect_one :: "browser \<Rightarrow> js_file \<Rightarrow> unit act" where
  "handleFileSelect_one env file =
     seq (set_content FileNameDisplay (''Selected: '' @ file_name file))
    (seq (upd (\<lambda>s. s\<lparr>currentFileName := file_name file\<rparr>))
    (seq (set_content ArticleInput [])
    (seq (setLoading True (''Reading '' @ file_name file @ ''...''))
      (try_finally
         (try_catch
            (file_one_try env file)
            (\<lambda>error.
               seq (console_error ''Error processing file:'' error)
              (seq (set_content FileNameDisplay ''Error processing file.'')
              (seq (upd (\<lambda>s. s\<lparr>currentFileName := []\<rparr>))
                   (alert (''Error processing '' @ file_name file @ '': '' @ error_message error))))))
         (setLoading False Processing)))))"

text \<open>One round of the loop over several files: the body of the \<^verbatim>\<open>try\<close> and its \<^verbatim>\<open>catch\<close>.\<close>
definition upload_one_of_many :: "browser \<Rightarrow> js_file \<Rightarrow> unit act" where
  "upload_one_of_many env file =
     try_catch
       (let fileExtension = toLowerCase (split_pop (file_name file)) in
        if fileExtension = ''pdf'' \<or> fileExtension = ''docx'' \<or> fileExtension = ''doc'' then
          bnd (await (file_dataURL file)) (\<lambda>base64.
          bnd (apiCall env ''/add_document'' ''POST''
                 (Some [(''content'', base64), (''filename'', file_name file),
                        (''file_type'', if fileExtension = ''pdf'' then ''pdf'' else ''docx'')]))
            (\<lambda>_. ret ()))
        else
          bnd (await (file_text file)) (\<lambda>fullText.
          bnd (apiCall env ''/add_document'' ''POST''
                 (Some [(''content'', trim fullText), (''filename'', file_name file),
                        (''file_type'', ''text'')]))
            (\<lambda>_. ret ())))
       (\<lambda>error.
          seq (console_error (''Error processing file '' @ file_name file @ '':'') error)
              (alert (''Error processing '' @ file_name file @ ''. Continuing with next file.'')))"

text \<open>
  \<^verbatim>\<open>for (let i = 0; i < files.length; i++)\<close>, entered at index \<open>i\<close> with the files from
  \<open>i\<close> on; \<open>n\<close> is \<^verbatim>\<open>files.length\<close> and \<open>step\<close> the \<^verbatim>\<open>try\<close> statement of the body.
\<close>
primrec files_loop :: "(js_file \<Rightarrow> unit act) \<Rightarrow> nat \<Rightarrow> nat \<Rightarrow> js_file list \<Rightarrow> unit act" where
  "files_loop step n i [] = ret ()"
| "files_loop step n i (file # rest) =
     seq (setLoading True (''Processing '' @ show_nat (i + 1) @ ''/'' @ show_nat n @ '': ''
                           @ file_name file))
    (seq (step file)
         (files_loop step n (i + 1) rest))"

definition handleFileSelect_many :: "(js_file \<Rightarrow> unit act) \<Rightarrow> browser \<Rightarrow> js_file list \<Rightarrow> unit act" where
  "handleFileSelect_many step env files =
     seq (set_content FileNameDisplay (''Processing '' @ show_nat (length files) @ '' files...''))
    (seq (files_loop step (length files) 0 files)
    (seq (loadDocuments env)
    (seq (setLoading False Processing)
    (seq (set_content FileNameDisplay (show_nat (length files) @ '' file(s) processed.''))
         (set_content FileInput [])))))"

text \<open>\<^verbatim>\<open>handleFileSelect\<close> of \<^verbatim>\<open>src/index.js\<close>; \<open>files\<close> is \<^verbatim>\<open>event.target.files\<close>.\<close>
definition handleFileSelect :: "browser \<Rightarrow> js_file list \<Rightarrow> unit act" where
  "handleFileSelect env files =
     (case files of
        [] \<Rightarrow> seq (set_content FileNameDisplay []) (upd (\<lambda>s. s\<lparr>currentFileName := []\<rparr>))
      | [file] \<Rightarrow> handleFileSelect_one env file
      | _ \<Rightarrow> handleFileSelect_many (upload_one_of_many env) env files)"

text \<open>
  The TypeScript original reads a PDF in the page: the text items of each page joined by
  a blank, each page followed by two newlines (\<^verbatim>\<open>item.str ?? ''\<close> for an item without
  text).
\<close>
definition pdf_text :: "string option list list \<Rightarrow> string" where
  "pdf_text pages =
     concat (map (\<lambda>items. join '' '' (map (\<lambda>str. case str of None \<Rightarrow> [] | Some t \<Rightarrow> t) items)
                           @ ''\<newline>\<newline>'') pages)"

text \<open>
  \<^verbatim>\<open>pdfjsLib.GlobalWorkerOptions.workerSrc\<close>, set when the script is loaded. PDF.js reads a
  document in a worker thread, and \<^verbatim>\<open>getDocument\<close> starts that worker from the script at
  this URL: the browser requests it, outside \<^verbatim>\<open>apiCall\<close>. The request is counted at
  every \<^verbatim>\<open>getDocument\<close>; whether the browser answers a repeated one from its cache is not
  modelled.
\<close>
definition workerSrc :: string where
  "workerSrc = ''https://esm.sh/pdfjs-dist@4.4.168/build/pdf.worker.mjs''"

definition worker_request :: request where
  "worker_request = \<lparr>req_method = ''GET'', req_url = workerSrc, req_headers = [], req_body = None\<rparr>"

text \<open>
  \<^verbatim>\<open>await pdfjsLib.getDocument(arrayBuffer).promise\<close> and the loop over the pages: the
  worker script is requested, then the pages are read or the promise rejects.
\<close>
definition getDocument :: "js_file \<Rightarrow> string option list list act" where
  "getDocument file =
     seq (upd (\<lambda>s. s\<lparr>requests := requests s @ [worker_request]\<rparr>))
         (await (file_pdf file))"

definition read_file_ts :: "js_file \<Rightarrow> string act" where
  "read_file_ts file =
     (if file_type file = ''application/pdf'' then
        bnd (await (file_arrayBuffer file)) (\<lambda>arrayBuffer.
        bnd (getDocument file) (\<lambda>pages. ret (pdf_text pages)))
      else await (file_text file))"

definition handleFileSelect_one_ts :: "js_file \<Rightarrow> unit act" where
  "handleFileSelect_one_ts file =
     seq (set_content FileNameDisplay (''Selected: '' @ file_name file))
    (seq (upd (\<lambda>s. s\<lparr>currentFileName := file_name file\<rparr>))
    (seq (set_content ArticleInput [])
    (seq (setLoading True (''Reading '' @ file_name file @ ''...''))
      (try_finally
         (try_catch
            (bnd (read_file_ts file) (\<lambda>fullText. set_content ArticleInput (trim fullText)))
            (\<lambda>error.
               seq (console_error ''Error processing file:'' error)
              (seq (set_content FileNameDisplay ''Error processing file.'')
              (seq (upd (\<lambda>s. s\<lparr>currentFileName := []\<rparr>))
                   (alert (''Error processing '' @ file_name file @ ''.''))))))
         (setLoading False Processing)))))"

definition upload_one_of_many_ts :: "browser \<Rightarrow> js_file \<Rightarrow> unit act" where
  "upload_one_of_many_ts env file =
     try_catch
       (bnd (read_file_ts file) (\<lambda>fullText.
        bnd (apiCall env ''/add_document'' ''POST''
               (Some [(''content'', trim fullText), (''filename'', file_name file)]))
          (\<lambda>_. ret ())))
       (\<lambda>error.
          seq (console_error (''Error processing file '' @ file_name file @ '':'') error)
              (alert (''Error processing '' @ file_name file @ ''. Continuing with next file.'')))"

text \<open>\<^verbatim>\<open>handleFileSelect\<close> of the TypeScript original.\<close>
definition handleFileSelect_ts :: "browser \<Rightarrow> js_file list \<Rightarrow> unit act" where
  "handleFileSelect_ts env files =
     (case files of
        [] \<Rightarrow> seq (set_content FileNameDisplay []) (upd (\<lambda>s. s\<lparr>currentFileName := []\<rparr>))
      | [file] \<Rightarrow> handleFileSelect_one_ts file
      | _ \<Rightarrow> handleFileSelect_many (upload_one_of_many_ts env) env files)"

subsection \<open>Generating a review (\<^verbatim>\<open>src/index.js\<close> and the TypeScript original)\<close>

definition addProgressLog :: "string \<Rightarrow> unit act" where
  "addProgressLog html =
     upd (\<lambda>s. s\<lparr>reviewProgressLog :=
                   reviewProgressLog s @ [''<div class=\"log-entry\">'' @ html @ ''</div>'']\<rparr>)"

text \<open>The button made for position \<open>index\<close> of a history of \<open>n\<close> drafts.\<close>
definition version_button :: "nat \<Rightarrow> nat \<Rightarrow> button" where
  "version_button n index =
     \<lparr>label = (if index = 0 then ''Draft'' else ''Version '' @ show_nat (index + 1)),
      data_index = Some (show_nat index),
      data_section = None,
      active = (index = n - 1)\<rparr>"

definition renderDraftViewer :: "unit act" where
  "renderDraftViewer =
     seq (upd (\<lambda>s. s\<lparr>draftVersionControls := []\<rparr>))
    (bnd (get draftHistory) (\<lambda>history.
       if length history = 0 then ret ()
       else for_each (\<lambda>index. upd (\<lambda>s. s\<lparr>draftVersionControls :=
                         draftVersionControls s @ [version_button (length history) index]\<rparr>))
              [0 ..< length history]))"

text \<open>\<^verbatim>\<open>draft.replace(/\n/g, '<br>')\<close> for a draft that may be \<^verbatim>\<open>undefined\<close>.\<close>
definition replace_newlines :: "string option \<Rightarrow> string act" where
  "replace_newlines draft =
     (case draft of
        None \<Rightarrow> throw (TypeError ''Cannot read properties of undefined (reading 'replace')'')
      | Some d \<Rightarrow> ret (br_of_newline d))"

definition review_prompt :: "string \<Rightarrow> string \<Rightarrow> string" where
  "review_prompt reviewLength topic =
     (if reviewLength = ''detailed'' then
        ''Generate a comprehensive literature review on the topic: \"'' @ topic @ ''\". \<newline>''
        @ ''                     Structure it with:\<newline>''
        @ ''                     1. Introduction (define the topic and scope)\<newline>''
        @ ''                     2. Main body sections (compare and contrast the sources, identify themes)\<newline>''
        @ ''                     3. Conclusion (summarize key findings and gaps)\<newline>''
        @ ''                     Use academic writing style and include proper citations.''
      else
        ''Generate a concise literature review (1-2 paragraphs) on the topic: \"'' @ topic @ ''\". \<newline>''
        @ ''                     Compare and contrast the key findings from the sources and include citations.'')"

text \<open>
  The two versions differ in how the checked radio input is read: \<^verbatim>\<open>src/index.js\<close> falls
  back to \<^verbatim>\<open>'detailed'\<close>, the TypeScript original reads \<^verbatim>\<open>.value\<close> of what the query
  returned.
\<close>
definition reviewLength_js :: "string act" where
  "reviewLength_js =
     bnd (get (\<lambda>s. checked s ''review-length'')) (\<lambda>reviewLengthInput.
       ret (case reviewLengthInput of Some v \<Rightarrow> v | None \<Rightarrow> ''detailed''))"

definition reviewLength_ts :: "string act" where
  "reviewLength_ts =
     bnd (get (\<lambda>s. checked s ''review-length'')) (\<lambda>reviewLengthInput.
       case reviewLengthInput of Some v \<Rightarrow> ret v
       | None \<Rightarrow> throw (TypeError ''Cannot read properties of null (reading 'value')''))"

text \<open>The statements up to \<^verbatim>\<open>setLoading(true, ...)\<close>, shared with the enhanced version.\<close>
definition reset_review :: "unit act" where
  "reset_review =
     seq (unhide ReviewGenerationProgress)
    (seq (upd (\<lambda>s. s\<lparr>reviewProgressLog := []\<rparr>))
    (seq (set_content ReviewDraftOutput [])
    (seq (upd (\<lambda>s. s\<lparr>draftVersionControls := []\<rparr>))
         (upd (\<lambda>s. s\<lparr>draftHistory := []\<rparr>)))))"

text \<open>The \<^verbatim>\<open>try\<close> block and the \<^verbatim>\<open>catch\<close> block of \<^verbatim>\<open>handleGenerateReview\<close>.\<close>
definition review_try :: "string act \<Rightarrow> browser \<Rightarrow> string \<Rightarrow> unit act" where
  "review_try reviewLengthInput env topic =
     bnd reviewLengthInput (\<lambda>reviewLength.
     seq (addProgressLog ''<strong>Step 1:</strong> Querying GraphRAG system...'')
    (bnd (apiCall env ''/query'' ''POST''
            (Some [(''question'', review_prompt reviewLength topic)])) (\<lambda>result.
     seq (addProgressLog ''<strong>Step 2:</strong> Literature review generated!'')
    (bnd (field body_answer result) (\<lambda>draft.
     seq (upd (\<lambda>s. s\<lparr>draftHistory := draftHistory s @ [draft]\<rparr>))
    (bnd (replace_newlines draft) (\<lambda>html.
     seq (set_content ReviewDraftOutput html)
    (seq renderDraftViewer
    (bnd (replace_newlines draft) (\<lambda>html'.
     seq (set_content WritingEditor html')
    (seq (unhide WritingAssistantSection)
         (addProgressLog
            ''<strong>Complete!</strong> Review ready for editing in Writing Assistant.''
         ))))))))))))"

definition review_catch :: "thrown \<Rightarrow> unit act" where
  "review_catch error =
     seq (console_error ''Error generating review:'' error)
    (seq (addProgressLog (cross_mark @ '' Error: '' @ error_message error))
         (alert ''Error generating literature review.''))"

definition generate_review :: "string act \<Rightarrow> browser \<Rightarrow> unit act" where
  "generate_review reviewLengthInput env =
     bnd (get (\<lambda>s. trim (content s ReviewTopicInput))) (\<lambda>topic.
       if topic = [] then ret ()
       else bnd (get documents) (\<lambda>docs.
         if length docs = 0 then alert ''Please add some documents first!''
         else
           seq reset_review
          (seq (setLoading True ''Generating literature review...'')
            (try_finally
               (try_catch (review_try reviewLengthInput env topic) review_catch)
               (setLoading False Processing)))))"

definition handleGenerateReview :: "browser \<Rightarrow> unit act" where
  "handleGenerateReview env = generate_review reviewLength_js env"

definition handleGenerateReview_ts :: "browser \<Rightarrow> unit act" where
  "handleGenerateReview_ts env = generate_review reviewLength_ts env"

subsection \<open>Questions, analysis, similarity\<close>

text \<open>\<^verbatim>\<open>textContent = text\<close> sets the empty text when \<open>text\<close> is \<^verbatim>\<open>undefined\<close>.\<close>
definition addMessageToChat :: "string option \<Rightarrow> sender \<Rightarrow> unit act" where
  "addMessageToChat text who =
     upd (\<lambda>s. s\<lparr>chatContainer :=
                   chatContainer s @ [(case text of None \<Rightarrow> [] | Some t \<Rightarrow> t, who)]\<rparr>)"

definition handleAskQuestion :: "browser \<Rightarrow> unit act" where
  "handleAskQuestion env =
     bnd (get (\<lambda>s. trim (content s QuestionInput))) (\<lambda>userQuestion.
     bnd (get (\<lambda>s. userQuestion = [] \<or> isLoading s \<or> length (documents s) = 0)) (\<lambda>stop.
       if stop then ret ()
       else
         seq (setLoading True ''Asking GraphRAG...'')
        (seq (addMessageToChat (Some userQuestion) user)
        (seq (set_content QuestionInput [])
          (try_finally
             (try_catch
                (bnd (apiCall env ''/query'' ''POST'' (Some [(''question'', userQuestion)])) (\<lambda>result.
                 bnd (field body_answer result) (\<lambda>answer.
                   addMessageToChat answer model)))
                (\<lambda>error.
                   seq (console_error ''Error asking question:'' error)
                       (addMessageToChat
                          (Some (''Sorry, I encountered an error: '' @ error_message error)) model)))
             (seq (setLoading False Processing)
                  (upd (\<lambda>s. s\<lparr>focused := Some QuestionInput\<rparr>))))))))"

definition handleAnalyzeText :: "browser \<Rightarrow> unit act" where
  "handleAnalyzeText env =
     bnd (get (\<lambda>s. trim (innerText env (content s WritingEditor)))) (\<lambda>text.
       if text = [] then alert ''Please write some text first.''
       else
         seq (setLoading True ''Analyzing text...'')
        (seq (set_content SuggestionsPanel ''<div class=\"placeholder\">Analyzing...</div>'')
          (try_finally
             (try_catch
                (bnd (apiCall env ''/query'' ''POST''
                        (Some [(''question'',
                           ''Please analyze this text for grammar, style, and clarity issues. Provide specific suggestions for improvement:\<newline>\<newline>\"''
                           @ text @ ''\"'')])) (\<lambda>result.
                 bnd (field body_answer result) (\<lambda>answer.
                 bnd (replace_newlines answer) (\<lambda>html.
                   set_content SuggestionsPanel
                     (''\<newline>            <div class=\"suggestion-card\">\<newline>''
                      @ ''                <div class=\"suggestion-card-header\">\<newline>''
                      @ ''                    <span class=\"suggestion-category Style\">GraphRAG Analysis</span>\<newline>''
                      @ ''                </div>\<newline>''
                      @ ''                <div class=\"suggestion-body\">\<newline>''
                      @ ''                    '' @ html @ ''\<newline>''
                      @ ''                </div>\<newline>''
                      @ ''            </div>\<newline>''
                      @ ''        '')))))
                (\<lambda>error.
                   seq (console_error ''Error analyzing text:'' error)
                       (set_content SuggestionsPanel
                          ''<div class=\"placeholder\">Failed to analyze text.</div>'')))
             (setLoading False Processing))))"

definition handleSimilarityCheck :: "browser \<Rightarrow> unit act" where
  "handleSimilarityCheck env =
     bnd (get (\<lambda>s. trim (innerText env (content s WritingEditor)))) (\<lambda>text.
       if text = [] then alert ''Please write some text first.''
       else
         seq (setLoading True ''Checking for similarity...'')
          (try_finally
             (try_catch
                (bnd (apiCall env ''/query'' ''POST''
                        (Some [(''question'',
                           ''Check if this text has any similarities to the documents in the knowledge base. Identify any potential plagiarism or very similar passages:\<newline>\<newline>\"''
                           @ text @ ''\"'')])) (\<lambda>result.
                 bnd (field body_answer result) (\<lambda>answer.
                   alert (''Similarity Check Results:\<newline>\<newline>''
                          @ (case answer of None \<Rightarrow> ''undefined'' | Some a \<Rightarrow> a)))))
                (\<lambda>error.
                   seq (console_error ''Error checking similarity:'' error)
                       (alert ''Error during similarity check.'')))
             (setLoading False Processing)))"

subsection \<open>The draft version buttons\<close>

definition digit_value :: "char \<Rightarrow> nat option" where
  "digit_value c =
     (let n = (of_char c :: nat) in
      if 48 \<le> n \<and> n \<le> 57 then Some (n - 48)
      else if 97 \<le> n \<and> n \<le> 122 then Some (n - 87)
      else if 65 \<le> n \<and> n \<le> 90 then Some (n - 55)
      else None)"

definition is_digit :: "nat \<Rightarrow> char \<Rightarrow> bool" where
  "is_digit R c = (case digit_value c of None \<Rightarrow> False | Some d \<Rightarrow> d < R)"

definition digits_value :: "nat \<Rightarrow> string \<Rightarrow> nat" where
  "digits_value R ds = foldl (\<lambda>acc c. acc * R + the (digit_value c)) 0 ds"

text \<open>
  \<^verbatim>\<open>parseInt(s)\<close> without a radix: white space is skipped, then a sign, then \<^verbatim>\<open>0x\<close> or
  \<^verbatim>\<open>0X\<close> selects base 16, then the longest run of digits is read; \<open>None\<close> is \<^verbatim>\<open>NaN\<close>
  (no digit).
\<close>
definition parseInt :: "string \<Rightarrow> int option" where
  "parseInt inputString =
     (let S = dropWhile is_space inputString;
          negative = (take 1 S = ''-'');
          S1 = (if take 1 S = ''-'' \<or> take 1 S = ''+'' then drop 1 S else S);
          hex = (take 2 S1 = ''0x'' \<or> take 2 S1 = ''0X'');
          R = (if hex then 16 else 10);
          S2 = (if hex then drop 2 S1 else S1);
          Z = takeWhile (is_digit R) S2
      in if Z = [] then None
         else Some (if negative then - int (digits_value R Z) else int (digits_value R Z)))"

text \<open>\<^verbatim>\<open>xs[index]\<close> for a number \<open>index\<close>: \<^verbatim>\<open>undefined\<close> outside the array and for \<^verbatim>\<open>NaN\<close>.\<close>
definition element_at :: "'a option list \<Rightarrow> int option \<Rightarrow> 'a option" where
  "element_at xs index =
     (case index of
        None \<Rightarrow> None
      | Some i \<Rightarrow> if 0 \<le> i \<and> nat i < length xs then xs ! nat i else None)"

text \<open>
  \<^verbatim>\<open>draftHistory[parseInt(target.dataset.index || '0')] || 'Could not load this version.'\<close>
\<close>
definition draftText :: "string option \<Rightarrow> string option list \<Rightarrow> string" where
  "draftText dataset_index history =
     or_else (element_at history (parseInt (or_else dataset_index ''0'')))
       ''Could not load this version.''"

text \<open>
  The click listener of \<^verbatim>\<open>draftVersionControls\<close>. The target is the button at position
  \<open>k\<close>, or (\<open>None\<close>, and any position past the last button) an element without the class
  \<^verbatim>\<open>version-button\<close>.
\<close>
definition draftVersionControls_click :: "nat option \<Rightarrow> unit act" where
  "draftVersionControls_click target =
     bnd (get draftVersionControls) (\<lambda>buttons.
       case target of
         None \<Rightarrow> ret ()
       | Some k \<Rightarrow>
           if \<not> k < length buttons then ret ()
           else
             seq (upd (\<lambda>s. s\<lparr>draftVersionControls :=
                              map (\<lambda>btn. btn\<lparr>active := False\<rparr>) (draftVersionControls s)\<rparr>))
            (seq (upd (\<lambda>s. s\<lparr>draftVersionControls :=
                              (draftVersionControls s)
                                [k := (draftVersionControls s ! k)\<lparr>active := True\<rparr>]\<rparr>))
            (bnd (get draftHistory) (\<lambda>history.
               set_content ReviewDraftOutput
                 (br_of_newline (draftText (data_index (buttons ! k)) history))))))"

subsection \<open>The enhanced review (\<^verbatim>\<open>src/unnamed/part_001\<close>)\<close>

text \<open>
  The enhanced version calls \<^verbatim>\<open>addProgressLog\<close> in fifteen places and defines it nowhere
  (the other two versions define it): the name does not resolve, so each call throws a
  \<^verbatim>\<open>ReferenceError\<close> before its argument is evaluated.
\<close>
definition addProgressLog_enhanced :: "string \<Rightarrow> unit act" where
  "addProgressLog_enhanced html = throw (ReferenceError ''addProgressLog is not defined'')"

text \<open>\<^verbatim>\<open>document.getElementById(id)\<close> followed by a property access.\<close>
definition getElementById :: "elem \<Rightarrow> unit act" where
  "getElementById el =
     bnd (get absent) (\<lambda>missing.
       if el \<in> missing then throw (TypeError ''Cannot read properties of null'') else ret ())"

definition updatePhaseIndicator :: "string \<Rightarrow> nat \<Rightarrow> unit act" where
  "updatePhaseIndicator phaseName percentage =
     bnd (get absent) (\<lambda>missing.
       seq (if_then (CurrentPhaseText \<notin> missing) (set_content CurrentPhaseText phaseName))
           (if_then (PhaseProgressFill \<notin> missing)
              (set_content PhaseProgressFill (show_nat percentage @ ''%''))))"

definition phaseNames :: "(string \<times> string) list" where
  "phaseNames =
     [(''Scoping'', ''Scoping and Question Development''),
      (''Literature Search'', ''Comprehensive Literature Search''),
      (''Critical Analysis'', ''Critical Analysis and Theme Identification''),
      (''Synthesis'', ''Synthesis and Framework Development''),
      (''Academic Writing'', ''Academic Writing (5 C's Framework)''),
      (''Refinement'', ''Iterative Refinement and Quality Assurance'')]"

definition getPhaseDescription :: "string \<Rightarrow> string" where
  "getPhaseDescription p =
     (case map_of
        [(''Scoping'', ''Defining research questions and search strategy''),
         (''Literature Search'', ''Identifying and gathering relevant sources''),
         (''Critical Analysis'', ''Analyzing themes, patterns, and debates''),
         (''Synthesis'', ''Developing conceptual framework and connections''),
         (''Academic Writing'', ''Writing sections using the 5 C's framework''),
         (''Refinement'', ''Quality assessment and iterative improvement'')] p of
        Some d \<Rightarrow> d
      | None \<Rightarrow> ''Processing...'')"

definition progressPercentages :: "nat list" where
  "progressPercentages = [15, 30, 50, 70, 85, 100]"

text \<open>\<^verbatim>\<open>if (n)\<close> for a number that may be absent.\<close>
definition truthy_number :: "int option \<Rightarrow> bool" where
  "truthy_number n = (case n of None \<Rightarrow> False | Some k \<Rightarrow> k \<noteq> 0)"

text \<open>The log lines of one phase (the four \<^verbatim>\<open>if\<close> statements of the loop body).\<close>
definition phase_details :: "phase \<Rightarrow> unit act" where
  "phase_details ph =
     seq (case research_questions ph of
            Some rqs \<Rightarrow>
              if_then (phase_name ph = ''Scoping'')
                (seq (addProgressLog_enhanced (clipboard_mark @ '' Research Questions Identified: ''
                                      @ show_nat (length rqs)))
                     (for_each (\<lambda>(idx, rq). addProgressLog_enhanced
                                  (''   '' @ show_nat (idx + 1) @ ''. '' @ question rq))
                        (enumerate 0 rqs)))
          | None \<Rightarrow> ret ())
    (seq (if_then (phase_name ph = ''Literature Search'' \<and> truthy_number (sources_found ph))
            (seq (addProgressLog_enhanced (books_mark @ '' Sources Found: ''
                                  @ show_int (the (sources_found ph))))
                 (case sources_by_type ph of
                    Some kvs \<Rightarrow>
                      for_each (\<lambda>(type, count). addProgressLog_enhanced
                                  (''   - '' @ type @ '': '' @ show_int count)) kvs
                  | None \<Rightarrow> ret ())))
    (seq (if_then (phase_name ph = ''Critical Analysis'' \<and> truthy_number (themes_identified ph))
            (seq (addProgressLog_enhanced (magnifier_mark @ '' Themes Identified: ''
                                  @ show_int (the (themes_identified ph))))
                 (case major_themes ph of
                    Some themes \<Rightarrow> for_each (\<lambda>theme. addProgressLog_enhanced (''   - '' @ theme)) themes
                  | None \<Rightarrow> ret ())))
         (if_then (phase_name ph = ''Academic Writing'' \<and> truthy_number (sections_written ph))
            (seq (addProgressLog_enhanced (writing_mark @ '' Sections Written: ''
                                  @ show_int (the (sections_written ph))))
            (seq (addProgressLog_enhanced (chart_mark @ '' Total Word Count: ''
                                  @ (if truthy_number (total_word_count ph)
                                     then show_int (the (total_word_count ph)) else ''N/A'')))
                 (addProgressLog_enhanced (target_mark @ '' Writing Framework: ''
                                  @ or_else (map_option (join '', '') (writing_principles ph))
                                      ''5 C's'')))))))"

text \<open>
  \<^verbatim>\<open>for (let i = 0; i < phases.length; i++)\<close>, entered at index \<open>i\<close>. The half second the
  loop waits after each phase is not modelled.
\<close>
primrec processReviewPhases_from :: "nat \<Rightarrow> phase list \<Rightarrow> unit act" where
  "processReviewPhases_from i [] = ret ()"
| "processReviewPhases_from i (ph # rest) =
     (let phaseName = or_else (map_of phaseNames (phase_name ph)) (phase_name ph);
          progress = (if i < length progressPercentages then progressPercentages ! i
                      else (i + 1) * 16)
      in seq (updatePhaseIndicator phaseName progress)
        (seq (addProgressLog_enhanced (''<strong>'' @ phase_name ph @ '':</strong> ''
                              @ getPhaseDescription (phase_name ph)))
        (seq (phase_details ph)
             (processReviewPhases_from (i + 1) rest))))"

definition processReviewPhases :: "phase list \<Rightarrow> unit act" where
  "processReviewPhases phs = processReviewPhases_from 0 phs"

definition section_button :: "nat \<Rightarrow> string \<Rightarrow> button" where
  "section_button index section_name =
     \<lparr>label = section_name,
      data_index = None,
      data_section = Some (toLowerCase section_name),
      active = (index = 0)\<rparr>"

definition renderEnhancedDraftViewer :: "process option \<Rightarrow> unit act" where
  "renderEnhancedDraftViewer proc =
     seq (upd (\<lambda>s. s\<lparr>draftVersionControls := []\<rparr>))
       (if proc = None \<or> phases (the proc) = None then ret ()
        else for_each (\<lambda>(index, section_name). upd (\<lambda>s. s\<lparr>draftVersionControls :=
                          draftVersionControls s @ [section_button index section_name]\<rparr>))
               (enumerate 0 [''Introduction'', ''Methodology'', ''Themes'', ''Analysis'',
                             ''Synthesis'', ''Conclusion'']))"

definition showSectionContent :: "string \<Rightarrow> unit act" where
  "showSectionContent sectionName =
     bnd (get draftHistory) (\<lambda>history.
       set_content ReviewDraftOutput
         (br_of_newline (or_else (element_at history (Some 0)) ''No content available'')))"

text \<open>
  A click on the section button at position \<open>k\<close>: the button's own listener, then the
  listener of \<^verbatim>\<open>draftVersionControls\<close>, which the event reaches next.
\<close>
definition section_button_click :: "nat \<Rightarrow> unit act" where
  "section_button_click k =
     bnd (get draftVersionControls) (\<lambda>buttons.
       if \<not> k < length buttons then ret ()
       else
         seq (upd (\<lambda>s. s\<lparr>draftVersionControls :=
                          map (\<lambda>btn. btn\<lparr>active := False\<rparr>) (draftVersionControls s)\<rparr>))
        (seq (upd (\<lambda>s. s\<lparr>draftVersionControls :=
                          (draftVersionControls s)
                            [k := (draftVersionControls s ! k)\<lparr>active := True\<rparr>]\<rparr>))
        (seq (showSectionContent (the (data_section (buttons ! k))))
             (draftVersionControls_click (Some k)))))"

text \<open>\<^verbatim>\<open>if (result.process && result.process.phases) await processReviewPhases(...)\<close>\<close>
definition show_phases :: "process option \<Rightarrow> unit act" where
  "show_phases proc =
     (case proc of
        None \<Rightarrow> ret ()
      | Some p \<Rightarrow> (case phases p of None \<Rightarrow> ret () | Some phs \<Rightarrow> processReviewPhases phs))"

text \<open>The \<^verbatim>\<open>try\<close> block and the \<^verbatim>\<open>catch\<close> block of the enhanced \<^verbatim>\<open>handleGenerateReview\<close>.\<close>
definition enhanced_review_try :: "browser \<Rightarrow> string \<Rightarrow> unit act" where
  "enhanced_review_try env topic =
     bnd (get (\<lambda>s. case checked s ''review-type'' of Some v \<Rightarrow> v
                    | None \<Rightarrow> ''systematic'')) (\<lambda>reviewType.
     bnd (get (\<lambda>s. case checked s ''review-depth'' of Some v \<Rightarrow> v
                    | None \<Rightarrow> ''comprehensive'')) (\<lambda>reviewDepth.
     seq (addProgressLog_enhanced
            ''<strong>Phase 1:</strong> Initializing enhanced GraphRAG literature review system...'')
    (seq (updatePhaseIndicator ''Scoping and Question Development'' 15)
    (bnd (apiCall env ''/generate_enhanced_review'' ''POST''
            (Some [(''topic'', topic), (''review_type'', reviewType),
                   (''depth'', reviewDepth)])) (\<lambda>result.
     bnd (field body_process result) (\<lambda>proc.
     seq (show_phases proc)
    (bnd (field body_final_review result) (\<lambda>final_review.
     bnd (ret (or_else final_review
                 ''Review generation completed but no content received.''))
       (\<lambda>finalReview.
     seq (upd (\<lambda>s. s\<lparr>draftHistory := draftHistory s @ [Some finalReview]\<rparr>))
    (seq (set_content ReviewDraftOutput (br_of_newline finalReview))
    (seq (renderEnhancedDraftViewer proc)
    (seq (set_content WritingEditor (br_of_newline finalReview))
    (seq (unhide WritingAssistantSection)
    (seq (addProgressLog_enhanced
            ''<strong>Complete!</strong> Enhanced literature review ready for editing.'')
    (seq (updatePhaseIndicator ''Review Complete'' 100)
    (seq (getElementById SectionRefinementControls)
         (unhide SectionRefinementControls)
    ))))))))))))))))"

definition enhanced_review_catch :: "thrown \<Rightarrow> unit act" where
  "enhanced_review_catch error =
     seq (console_error ''Error generating enhanced review:'' error)
    (seq (addProgressLog_enhanced (cross_mark @ '' Error: '' @ error_message error))
    (seq (alert ''Error generating enhanced literature review.'')
         (updatePhaseIndicator ''Error Occurred'' 0)))"

definition handleGenerateReview_enhanced :: "browser \<Rightarrow> unit act" where
  "handleGenerateReview_enhanced env =
     bnd (get (\<lambda>s. trim (content s ReviewTopicInput))) (\<lambda>topic.
       if topic = [] then ret ()
       else bnd (get documents) (\<lambda>docs.
         if length docs = 0 then alert ''Please add some documents first!''
         else
           seq reset_review
          (seq (setLoading True ''Initializing enhanced literature review generation...'')
            (try_finally
               (try_catch (enhanced_review_try env topic) enhanced_review_catch)
               (setLoading False Processing)))))"

text \<open>The \<^verbatim>\<open>try\<close> block of \<^verbatim>\<open>handleSectionRefinement\<close>.\<close>
definition refinement_try :: "browser \<Rightarrow> string \<Rightarrow> string \<Rightarrow> string \<Rightarrow> unit act" where
  "refinement_try env currentSection refinementType feedback =
     bnd (apiCall env ''/refine_review_section'' ''POST''
            (Some [(''section_content'', newline_of_br currentSection),
                   (''refinement_type'', refinementType),
                   (''feedback'', feedback)])) (\<lambda>result.
     bnd (field body_refined_section result) (\<lambda>refined_section.
     bnd (replace_newlines refined_section) (\<lambda>html.
     seq (set_content ReviewDraftOutput html)
    (bnd (replace_newlines refined_section) (\<lambda>html'.
     seq (set_content WritingEditor html')
    (seq (getElementById RefinementFeedback)
    (seq (set_content RefinementFeedback [])
    (seq (addProgressLog_enhanced (''<strong>Refinement Applied:</strong> '' @ refinementType))
    (bnd (field body_improvements_made result) (\<lambda>improvements_made.
         addProgressLog_enhanced (trend_mark @ '' Improvements: ''
           @ join '', '' (map snd (case improvements_made of None \<Rightarrow> []
                                  | Some kvs \<Rightarrow> kvs)))))))))))))"

definition handleSectionRefinement :: "browser \<Rightarrow> string \<Rightarrow> unit act" where
  "handleSectionRefinement env refinementType =
     bnd (get (\<lambda>s. content s ReviewDraftOutput)) (\<lambda>currentSection.
     seq (getElementById RefinementFeedback)
    (bnd (get (\<lambda>s. trim (content s RefinementFeedback))) (\<lambda>feedback.
       if currentSection = [] then alert ''No section content to refine.''
       else
         seq (setLoading True (''Applying '' @ refinementType @ '' refinement...''))
          (try_finally
             (try_catch
                (refinement_try env currentSection refinementType feedback)
                (\<lambda>error.
                   seq (console_error ''Error refining section:'' error)
                       (alert (''Error applying refinement: '' @ error_message error))))
             (setLoading False Processing)))))"

subsection \<open>The event listeners\<close>

text \<open>
  The listener of the editor toolbar: \<open>command\<close> is \<^verbatim>\<open>button.dataset.command\<close> of the
  button that was hit, \<open>None\<close> without such a button.
\<close>
definition editorToolbar_click :: "browser \<Rightarrow> string option \<Rightarrow> unit act" where
  "editorToolbar_click env command =
     (case command of
        None \<Rightarrow> ret ()
      | Some c \<Rightarrow>
          if_then (c \<noteq> [])
            (seq (upd (\<lambda>s. s\<lparr>content := (content s)
                               (WritingEditor := execCommand env c (content s WritingEditor))\<rparr>))
                 (upd (\<lambda>s. s\<lparr>focused := Some WritingEditor\<rparr>))))"

datatype version = JS | TS | Enhanced

text \<open>
  What can happen to the page: it is loaded, or one of the listeners the script registers
  is called. \<^verbatim>\<open>handleSectionRefinement\<close> of the enhanced version is registered by none
  of them.
\<close>
datatype event =
    Load
  | ProcessClick
  | FileChange "js_file list"
  | ReviewSubmit
  | AskSubmit
  | AnalyzeClick
  | SimilarityClick
  | VersionClick "nat option"
  | ToolbarClick "string option"

definition dispatch :: "version \<Rightarrow> browser \<Rightarrow> event \<Rightarrow> unit act" where
  "dispatch v env ev =
     (case ev of
        Load \<Rightarrow> (if v = TS then initializeApp_ts env else initializeApp env)
      | ProcessClick \<Rightarrow> handleProcessArticle env
      | FileChange files \<Rightarrow>
          (if v = TS then handleFileSelect_ts env files else handleFileSelect env files)
      | ReviewSubmit \<Rightarrow>
          (case v of JS \<Rightarrow> handleGenerateReview env
           | TS \<Rightarrow> handleGenerateReview_ts env
           | Enhanced \<Rightarrow> handleGenerateReview_enhanced env)
      | AskSubmit \<Rightarrow> handleAskQuestion env
      | AnalyzeClick \<Rightarrow> handleAnalyzeText env
      | SimilarityClick \<Rightarrow> handleSimilarityCheck env
      | VersionClick target \<Rightarrow>
          (case target of
             Some k \<Rightarrow> if v = Enhanced then section_button_click k
                       else draftVersionControls_click (Some k)
           | None \<Rightarrow> draftVersionControls_click None)
      | ToolbarClick command \<Rightarrow> editorToolbar_click env command)"

text \<open>The requests a run of \<open>m\<close> from the state \<open>s\<close> adds to the log.\<close>
definition issued :: "unit act \<Rightarrow> page \<Rightarrow> request list" where
  "issued m s = drop (length (requests s)) (requests (snd (m s)))"

text \<open>
  For examples: a page where nothing is hidden or disabled, every field is empty and no
  request has been sent; a document; an empty JSON object; a browser around the backend
  \<open>srv\<close>.
\<close>
definition blank_page :: page where
  "blank_page =
     \<lparr>isLoading = False, documents = [], currentFileName = [], draftHistory = [],
      hidden = {}, disabled = {}, content = (\<lambda>_. []), checked = (\<lambda>_. None), absent = {},
      knowledgeList = [], reviewProgressLog = [], draftVersionControls = [],
      chatContainer = [], focused = None, alerts = [], console_errors = [], requests = []\<rparr>"

definition a_document :: document where
  "a_document = \<lparr>filename = ''a.txt'', path = ''/files/a.txt'', chunks = 3, processed_at = ''2024-05-01''\<rparr>"

definition empty_object :: payload where
  "empty_object =
     \<lparr>body_message = None, body_status = None, body_documents = None,
      body_answer = None, body_process = None, body_final_review = None,
      body_refined_section = None, body_improvements_made = None\<rparr>"

text \<open>A backend that gives every request the same answer.\<close>
definition answers :: "fetch_result \<Rightarrow> request list \<Rightarrow> fetch_result" where
  "answers r log = r"

definition browser_of :: "(request list \<Rightarrow> fetch_result) \<Rightarrow> browser" where
  "browser_of srv =
     \<lparr>server = srv, toLocaleString = (\<lambda>t. t), innerText = (\<lambda>h. h),
      execCommand = (\<lambda>c h. h), now = 0\<rparr>"

text \<open>Three files: a PDF, a text file, and a file that cannot be read.\<close>
definition a_pdf :: js_file where
  "a_pdf =
     \<lparr>file_name = ''paper.pdf'', file_type = ''application/pdf'',
      file_text = Inr ''%PDF-1.7'',
      file_dataURL = Inr ''data:application/pdf;base64,JVBERi0xLjc='',
      file_arrayBuffer = Inr (),
      file_pdf = Inr [[Some ''Hello'', Some ''world'']]\<rparr>"



section \<open>Properties\<close>

subsection \<open>Running the statements\<close>

text \<open>The state a statement leaves and what it returns or throws, the state after a request
  went out, and the sections that \<^verbatim>\<open>renderDocuments\<close> shows when there are documents.\<close>
definition after :: "'a act \<Rightarrow> page \<Rightarrow> page" where
  "after m s = snd (m s)"

definition outcome_of :: "'a act \<Rightarrow> page \<Rightarrow> thrown + 'a" where
  "outcome_of m s = fst (m s)"

definition sent :: "request \<Rightarrow> page \<Rightarrow> page" where
  "sent r s = s\<lparr>requests := requests s @ [r]\<rparr>"

definition shown :: "bool \<Rightarrow> elem set \<Rightarrow> elem set" where
  "shown b H =
     (if b then marked QaSection False (marked LiteratureReviewSection False
                 (marked KnowledgeBaseContainer False H))
      else H)"

text \<open>
  The request the loop over several files sends for one file (\<^verbatim>\<open>src/index.js\<close>, and the
  TypeScript original): none when the file cannot be read.
\<close>
definition uploads :: "js_file \<Rightarrow> request list" where
  "uploads file =
     (let fileExtension = toLowerCase (split_pop (file_name file)) in
      if fileExtension = ''pdf'' \<or> fileExtension = ''docx'' \<or> fileExtension = ''doc'' then
        (case file_dataURL file of
           Inl _ \<Rightarrow> []
         | Inr base64 \<Rightarrow>
             [api_request ''/add_document'' ''POST''
                (Some [(''content'', base64), (''filename'', file_name file),
                       (''file_type'', if fileExtension = ''pdf'' then ''pdf'' else ''docx'')])])
      else
        (case file_text file of
           Inl _ \<Rightarrow> []
         | Inr fullText \<Rightarrow>
             [api_request ''/add_document'' ''POST''
                (Some [(''content'', trim fullText), (''filename'', file_name file),
                       (''file_type'', ''text'')])]))"

definition uploads_ts :: "js_file \<Rightarrow> request list" where
  "uploads_ts file =
     (case (if file_type file = ''application/pdf''
            then (case file_arrayBuffer file of
                    Inl e \<Rightarrow> Inl e
                  | Inr _ \<Rightarrow> (case file_pdf file of Inl e \<Rightarrow> Inl e
                              | Inr pages \<Rightarrow> Inr (pdf_text pages)))
            else file_text file) of
        Inl _ \<Rightarrow> []
      | Inr fullText \<Rightarrow>
          [api_request ''/add_document'' ''POST''
             (Some [(''content'', trim fullText), (''filename'', file_name file)])])"

text \<open>
  The request for the PDF.js worker that the TypeScript original causes when it reads a
  file: for a PDF whose bytes could be read.
\<close>
definition worker_load :: "js_file \<Rightarrow> request list" where
  "worker_load file =
     (if file_type file = ''application/pdf''
      then (case file_arrayBuffer file of Inl _ \<Rightarrow> [] | Inr _ \<Rightarrow> [worker_request])
      else [])"

text \<open>
  Per version: the upload of one round of the loop over several files, and all the
  requests of that round.
\<close>
definition round_upload :: "version \<Rightarrow> js_file \<Rightarrow> request list" where
  "round_upload v file = (if v = TS then uploads_ts file else uploads file)"

definition round_requests :: "version \<Rightarrow> js_file \<Rightarrow> request list" where
  "round_requests v file =
     (if v = TS then worker_load file @ uploads_ts file else uploads file)"

text \<open>
  The upload that \<^verbatim>\<open>src/index.js\<close> sends for a single selected file: none for a text file
  and none when the file cannot be read.
\<close>
definition upload_of_one :: "js_file \<Rightarrow> request list" where
  "upload_of_one file =
     (let fileExtension = toLowerCase (split_pop (file_name file)) in
      if file_type file = ''application/pdf'' \<or> fileExtension = ''pdf'' then
        (case file_dataURL file of
           Inl _ \<Rightarrow> []
         | Inr base64 \<Rightarrow>
             [api_request ''/add_document'' ''POST''
                (Some [(''content'', base64), (''filename'', file_name file),
                       (''file_type'', ''pdf'')])])
      else if fileExtension = ''docx'' \<or> fileExtension = ''doc'' then
        (case file_dataURL file of
           Inl _ \<Rightarrow> []
         | Inr base64 \<Rightarrow>
             [api_request ''/add_document'' ''POST''
                (Some [(''content'', base64), (''filename'', file_name file),
                       (''file_type'', ''docx'')])])
      else [])"

text \<open>
  The alert of one round of the loop, entered when the log is \<open>log\<close>; \<open>up\<close> gives the
  upload of a file (none when it cannot be read) and \<open>rs\<close> all requests of its round, the
  upload last. The alert is raised when the file cannot be read or its upload fails. And
  the alerts of the whole loop.
\<close>
definition upload_alert ::
  "browser \<Rightarrow> (js_file \<Rightarrow> request list) \<Rightarrow> (js_file \<Rightarrow> request list) \<Rightarrow> request list
     \<Rightarrow> js_file \<Rightarrow> string list" where
  "upload_alert env up rs log file =
     (if up file = [] \<or> isl (apiCall_result (server env (log @ rs file)))
      then [''Error processing '' @ file_name file @ ''. Continuing with next file.'']
      else [])"

primrec batch_alerts ::
  "browser \<Rightarrow> (js_file \<Rightarrow> request list) \<Rightarrow> (js_file \<Rightarrow> request list) \<Rightarrow> request list
     \<Rightarrow> js_file list \<Rightarrow> string list" where
  "batch_alerts env up rs log [] = []"
| "batch_alerts env up rs log (file # rest) =
     upload_alert env up rs log file @ batch_alerts env up rs (log @ rs file) rest"


text \<open>A statement that never throws.\<close>
definition total :: "'a act \<Rightarrow> bool" where
  "total m \<longleftrightarrow> (\<forall>s. \<exists>x. fst (m s) = Inr x)"

text \<open>A statement that only appends requests of the set \<open>A\<close> to the log.\<close>
definition within :: "request set \<Rightarrow> 'a act \<Rightarrow> bool" where
  "within A m \<longleftrightarrow> (\<forall>s. \<exists>rs. requests (snd (m s)) = requests s @ rs \<and> set rs \<subseteq> A)"

text \<open>The method and URL of the calls of \<^verbatim>\<open>apiCall\<close> in the three scripts.\<close>
definition endpoints_called :: "request set" where
  "endpoints_called =
     {r. (req_method r, req_url r) \<in>
           {(''GET'', ''/api/status''), (''GET'', ''/api/documents''),
            (''POST'', ''/api/add_document''), (''POST'', ''/api/query''),
            (''POST'', ''/api/generate_enhanced_review''),
            (''POST'', ''/api/refine_review_section'')}}"

lemmas act_defs = ret_def throw_def bnd_def seq_def upd_def try_catch_def try_finally_def
  await_def field_def alert_def console_error_def set_content_def toggle_hidden_def unhide_def
  set_disabled_def get_def if_then_def

lemma apiCall_eq:
  "apiCall env ep m d s =
     (apiCall_result (server env (requests s @ [api_request ep m d])), sent (api_request ep m d) s)"
  by (simp add: apiCall_def fetch_def act_defs Let_def sent_def split: sum.splits)

lemma for_each_upd:
  "for_each (\<lambda>x. upd (g x)) xs s = (Inr (), foldl (\<lambda>t x. g x t) s xs)"
  by (induction xs arbitrary: s) (simp_all add: act_defs)

lemma foldl_knowledgeList:
  "foldl (\<lambda>t x. t\<lparr>knowledgeList := knowledgeList t @ [f x]\<rparr>) s xs
     = s\<lparr>knowledgeList := knowledgeList s @ map f xs\<rparr>"
  by (induction xs arbitrary: s) simp_all

lemma renderDocuments_eq:
  "renderDocuments env s =
     (Inr (), s\<lparr>knowledgeList := map (document_card env) (documents s),
               hidden := shown (documents s \<noteq> []) (hidden s)\<rparr>)"
  by (simp add: renderDocuments_def act_defs for_each_upd foldl_knowledgeList shown_def)

lemma shown_idem: "shown b (shown b H) = shown b H"
  by (auto simp: shown_def marked_def)

lemma Loader_marked [simp]:
  "Loader \<in> marked el b S \<longleftrightarrow> (if el = Loader then b else Loader \<in> S)"
  by (simp add: marked_def)

lemma Loader_shown [simp]: "Loader \<in> shown b S \<longleftrightarrow> Loader \<in> S"
  by (simp add: shown_def)

lemma loadDocuments_ok: "loadDocuments env s = (Inr (), after (loadDocuments env) s)"
  by (simp add: after_def loadDocuments_def act_defs apiCall_eq renderDocuments_eq
      split: sum.splits json.splits)

lemma loadDocuments_frame:
  "requests (after (loadDocuments env) s) = requests s @ [api_request ''/documents'' ''GET'' None]"
  "isLoading (after (loadDocuments env) s) = isLoading s"
  "alerts (after (loadDocuments env) s) = alerts s"
  "chatContainer (after (loadDocuments env) s) = chatContainer s"
  "reviewProgressLog (after (loadDocuments env) s) = reviewProgressLog s"
  "draftHistory (after (loadDocuments env) s) = draftHistory s"
  "draftVersionControls (after (loadDocuments env) s) = draftVersionControls s"
  "content (after (loadDocuments env) s) = content s"
  "absent (after (loadDocuments env) s) = absent s"
  "checked (after (loadDocuments env) s) = checked s"
  "currentFileName (after (loadDocuments env) s) = currentFileName s"
  "Loader \<in> hidden (after (loadDocuments env) s) \<longleftrightarrow> Loader \<in> hidden s"
  by (simp_all add: after_def loadDocuments_def act_defs apiCall_eq renderDocuments_eq sent_def
      split: sum.splits json.splits)

lemma loadDocuments_console:
  "console_errors (after (loadDocuments env) s) =
     console_errors s @
       (case apiCall_result (server env (requests s @ [api_request ''/documents'' ''GET'' None])) of
          Inl e \<Rightarrow> [(''Error loading documents:'', e)]
        | Inr JsonNull \<Rightarrow>
            [(''Error loading documents:'', TypeError ''Cannot read properties of null'')]
        | Inr (JsonObj p) \<Rightarrow> [])"
  by (simp add: after_def loadDocuments_def act_defs apiCall_eq renderDocuments_eq sent_def
      split: sum.splits json.splits)

lemma foldl_buttons:
  "foldl (\<lambda>t x. t\<lparr>draftVersionControls := draftVersionControls t @ [f x]\<rparr>) s xs
     = s\<lparr>draftVersionControls := draftVersionControls s @ map f xs\<rparr>"
  by (induction xs arbitrary: s) simp_all

lemma renderDraftViewer_eq:
  "renderDraftViewer s =
     (Inr (), s\<lparr>draftVersionControls :=
                  map (version_button (length (draftHistory s))) [0 ..< length (draftHistory s)]\<rparr>)"
  by (simp add: renderDraftViewer_def act_defs for_each_upd foldl_buttons)

lemma renderEnhancedDraftViewer_eq:
  "renderEnhancedDraftViewer proc s =
     (Inr (), s\<lparr>draftVersionControls :=
        (if proc = None \<or> phases (the proc) = None then []
         else map (\<lambda>(i, n). section_button i n)
                (enumerate 0 [''Introduction'', ''Methodology'', ''Themes'', ''Analysis'',
                              ''Synthesis'', ''Conclusion'']))\<rparr>)"
  by (simp add: renderEnhancedDraftViewer_def act_defs)

lemmas run_simps = act_defs setLoading_def apiCall_eq loadDocuments_ok loadDocuments_frame sent_def
  addMessageToChat_def addProgressLog_def renderDraftViewer_eq replace_newlines_def
  reset_review_def Let_def issued_def getElementById_def renderEnhancedDraftViewer_eq
  addProgressLog_enhanced_def

lemmas run_splits = sum.splits json.splits option.splits

subsection \<open>Statements that never throw\<close>

lemma totalI: "(\<And>s. \<exists>x. fst (m s) = Inr x) \<Longrightarrow> total m"
  by (simp add: total_def)

lemma total_unit: "total m \<Longrightarrow> fst (m s) = Inr ()"
  for m :: "unit act"
  unfolding total_def by (metis (full_types) old.unit.exhaust)

lemma total_ret: "total (ret x)" by (simp add: total_def ret_def)
lemma total_get: "total (get f)" by (simp add: total_def get_def)
lemma total_upd: "total (upd g)" by (simp add: total_def upd_def)

lemma total_bnd:
  assumes m: "total m" and k: "\<And>x. total (k x)"
  shows "total (bnd m k)"
proof (rule totalI)
  fix s
  obtain r s' where p: "m s = (r, s')" by (cases "m s")
  with m obtain x where r: "r = Inr x" unfolding total_def by (metis fst_conv)
  from k obtain y where "fst (k x s') = Inr y" unfolding total_def by blast
  with p r show "\<exists>y. fst (bnd m k s) = Inr y" by (simp add: bnd_def)
qed

lemma total_seq: "total m \<Longrightarrow> total n \<Longrightarrow> total (seq m n)"
  by (simp add: seq_def total_bnd)

lemma total_try_catch:
  assumes h: "\<And>e. total (h e)"
  shows "total (try_catch m h)"
proof (rule totalI)
  fix s
  obtain r s' where p: "m s = (r, s')" by (cases "m s")
  show "\<exists>y. fst (try_catch m h s) = Inr y"
  proof (cases r)
    case (Inl e)
    from h obtain y where "fst (h e s') = Inr y" unfolding total_def by blast
    with p Inl show ?thesis by (simp add: try_catch_def)
  next
    case (Inr x)
    with p show ?thesis by (simp add: try_catch_def)
  qed
qed

lemma total_try_finally:
  assumes m: "total m" and f: "total fin"
  shows "total (try_finally m fin)"
proof (rule totalI)
  fix s
  obtain r s' where p: "m s = (r, s')" by (cases "m s")
  with m obtain x where r: "r = Inr x" unfolding total_def by (metis fst_conv)
  obtain q s'' where p': "fin s' = (q, s'')" by (cases "fin s'")
  with f obtain u where q: "q = Inr u" unfolding total_def by (metis fst_conv)
  from p r p' q show "\<exists>y. fst (try_finally m fin s) = Inr y" by (simp add: try_finally_def)
qed

lemma total_if_then: "total m \<Longrightarrow> total (if_then b m)"
  by (simp add: if_then_def total_ret)

lemma total_for_each: "(\<And>x. total (f x)) \<Longrightarrow> total (for_each f xs)"
  by (induction xs) (simp_all add: total_ret total_seq)

lemma total_prims:
  "total (alert a)" "total (console_error c e)" "total (set_content el v)"
  "total (toggle_hidden el b)" "total (unhide el)" "total (set_disabled el b)"
  "total (addProgressLog h)" "total (addMessageToChat t w)"
  by (simp_all add: total_def act_defs addProgressLog_def addMessageToChat_def)

lemma total_setLoading: "total (setLoading b t)"
  by (simp add: total_def setLoading_def act_defs)

lemma total_loadDocuments: "total (loadDocuments env)"
  by (simp add: total_def loadDocuments_ok)

lemma total_updatePhaseIndicator: "total (updatePhaseIndicator n p)"
  unfolding updatePhaseIndicator_def
  by (intro total_bnd total_get total_seq total_if_then total_prims)

lemmas total_rules = total_ret total_get total_upd total_bnd total_seq total_try_catch
  total_try_finally total_if_then total_for_each total_prims total_setLoading total_loadDocuments
  total_updatePhaseIndicator

lemma total_checkSystemStatus: "total (checkSystemStatus env)"
  unfolding checkSystemStatus_def by (intro total_rules)

lemma total_initializeApp_port: "total (initializeApp_port port env)"
  unfolding initializeApp_port_def by (intro total_rules)

lemma total_handleProcessArticle: "total (handleProcessArticle env)"
  unfolding handleProcessArticle_def by (auto intro!: total_rules)

lemma total_handleFileSelect_one: "total (handleFileSelect_one env file)"
  unfolding handleFileSelect_one_def by (intro total_rules)

lemma total_handleFileSelect_one_ts: "total (handleFileSelect_one_ts file)"
  unfolding handleFileSelect_one_ts_def by (intro total_rules)

lemma total_upload_one_of_many: "total (upload_one_of_many env file)"
  unfolding upload_one_of_many_def by (intro total_rules)

lemma total_upload_one_of_many_ts: "total (upload_one_of_many_ts env file)"
  unfolding upload_one_of_many_ts_def by (intro total_rules)

lemma total_files_loop: "(\<And>f. total (step f)) \<Longrightarrow> total (files_loop step n i fs)"
  by (induction fs arbitrary: i) (simp_all add: total_rules)

lemma total_handleFileSelect_many:
  "(\<And>f. total (step f)) \<Longrightarrow> total (handleFileSelect_many step env fs)"
  unfolding handleFileSelect_many_def by (intro total_rules total_files_loop)

lemma total_handleFileSelect: "total (handleFileSelect env fs)"
  unfolding handleFileSelect_def
  by (auto intro!: total_rules total_handleFileSelect_one total_handleFileSelect_many
        total_upload_one_of_many split: list.splits)

lemma total_handleFileSelect_ts: "total (handleFileSelect_ts env fs)"
  unfolding handleFileSelect_ts_def
  by (auto intro!: total_rules total_handleFileSelect_one_ts total_handleFileSelect_many
        total_upload_one_of_many_ts split: list.splits)

lemma total_generate_review: "total (generate_review rl env)"
  unfolding generate_review_def review_catch_def by (auto intro!: total_rules simp: reset_review_def)

lemma total_handleAskQuestion: "total (handleAskQuestion env)"
  unfolding handleAskQuestion_def by (auto intro!: total_rules)

lemma total_handleAnalyzeText: "total (handleAnalyzeText env)"
  unfolding handleAnalyzeText_def by (auto intro!: total_rules)

lemma total_handleSimilarityCheck: "total (handleSimilarityCheck env)"
  unfolding handleSimilarityCheck_def by (auto intro!: total_rules)

lemma total_draftVersionControls_click: "total (draftVersionControls_click target)"
  unfolding draftVersionControls_click_def by (auto intro!: total_rules split: option.splits)

lemma total_section_button_click: "total (section_button_click k)"
  unfolding section_button_click_def showSectionContent_def
  by (auto intro!: total_rules total_draftVersionControls_click)

lemma total_editorToolbar_click: "total (editorToolbar_click env command)"
  unfolding editorToolbar_click_def by (auto intro!: total_rules split: option.splits)

text \<open>
  Every listener but one returns normally, whatever the page and the backend: the exception
  is the enhanced \<^verbatim>\<open>handleGenerateReview\<close>, whose \<^verbatim>\<open>catch\<close> block throws.
\<close>
lemma total_dispatch: "v \<noteq> Enhanced \<or> ev \<noteq> ReviewSubmit \<Longrightarrow> total (dispatch v env ev)"
  unfolding dispatch_def initializeApp_def initializeApp_ts_def handleGenerateReview_def
    handleGenerateReview_ts_def
  by (auto intro!: total_initializeApp_port total_handleProcessArticle total_handleFileSelect
        total_handleFileSelect_ts total_generate_review
        total_handleAskQuestion total_handleAnalyzeText total_handleSimilarityCheck
        total_draftVersionControls_click total_section_button_click total_editorToolbar_click
      split: event.splits version.splits option.splits)

subsection \<open>Statements that only call the known endpoints\<close>

lemma withinI:
  "(\<And>s. \<exists>rs. requests (snd (m s)) = requests s @ rs \<and> set rs \<subseteq> A) \<Longrightarrow> within A m"
  by (simp add: within_def)

lemma within_quiet: "(\<And>s. requests (snd (m s)) = requests s) \<Longrightarrow> within A m"
  unfolding within_def by (intro allI, rule_tac x="[]" in exI) simp

lemma within_ret: "within A (ret x)"
  by (rule within_quiet) (simp add: ret_def)

lemma within_throw: "within A (throw e)"
  by (rule within_quiet) (simp add: throw_def)

lemma within_get: "within A (get f)"
  by (rule within_quiet) (simp add: get_def)

lemma within_await: "within A (await r)"
  by (rule within_quiet) (simp add: await_def ret_def throw_def split: sum.splits)

lemma within_field: "within A (field f j)"
  by (rule within_quiet) (simp add: field_def ret_def throw_def split: json.splits)

lemma within_upd: "(\<And>s. requests (g s) = requests s) \<Longrightarrow> within A (upd g)"
  by (rule within_quiet) (simp add: upd_def)

lemma within_bnd:
  assumes m: "within A m" and k: "\<And>x. within A (k x)"
  shows "within A (bnd m k)"
proof (rule withinI)
  fix s
  from m obtain rs where 1: "requests (snd (m s)) = requests s @ rs" "set rs \<subseteq> A"
    unfolding within_def by blast
  obtain r s' where p: "m s = (r, s')" by (cases "m s")
  show "\<exists>rs. requests (snd (bnd m k s)) = requests s @ rs \<and> set rs \<subseteq> A"
  proof (cases r)
    case (Inl e)
    with p 1 show ?thesis by (auto simp: bnd_def)
  next
    case (Inr x)
    from k obtain rs' where 2: "requests (snd (k x s')) = requests s' @ rs'" "set rs' \<subseteq> A"
      unfolding within_def by blast
    from p Inr 1 2 have "requests (snd (bnd m k s)) = requests s @ (rs @ rs')"
      and "set (rs @ rs') \<subseteq> A"
      by (auto simp: bnd_def)
    then show ?thesis by blast
  qed
qed

lemma within_seq: "within A m \<Longrightarrow> within A n \<Longrightarrow> within A (seq m n)"
  by (simp add: seq_def within_bnd)

lemma within_try_catch:
  assumes m: "within A m" and h: "\<And>e. within A (h e)"
  shows "within A (try_catch m h)"
proof (rule withinI)
  fix s
  from m obtain rs where 1: "requests (snd (m s)) = requests s @ rs" "set rs \<subseteq> A"
    unfolding within_def by blast
  obtain r s' where p: "m s = (r, s')" by (cases "m s")
  show "\<exists>rs. requests (snd (try_catch m h s)) = requests s @ rs \<and> set rs \<subseteq> A"
  proof (cases r)
    case (Inr x)
    with p 1 show ?thesis by (auto simp: try_catch_def)
  next
    case (Inl e)
    from h obtain rs' where 2: "requests (snd (h e s')) = requests s' @ rs'" "set rs' \<subseteq> A"
      unfolding within_def by blast
    from p Inl 1 2 have "requests (snd (try_catch m h s)) = requests s @ (rs @ rs')"
      and "set (rs @ rs') \<subseteq> A"
      by (auto simp: try_catch_def)
    then show ?thesis by blast
  qed
qed

lemma within_try_finally:
  assumes m: "within A m" and f: "within A fin"
  shows "within A (try_finally m fin)"
proof (rule withinI)
  fix s
  from m obtain rs where 1: "requests (snd (m s)) = requests s @ rs" "set rs \<subseteq> A"
    unfolding within_def by blast
  obtain r s' where p: "m s = (r, s')" by (cases "m s")
  from f obtain rs' where 2: "requests (snd (fin s')) = requests s' @ rs'" "set rs' \<subseteq> A"
    unfolding within_def by blast
  from p 1 2 have "requests (snd (try_finally m fin s)) = requests s @ (rs @ rs')"
    and "set (rs @ rs') \<subseteq> A"
    by (auto simp: try_finally_def split: prod.splits sum.splits)
  then show "\<exists>rs. requests (snd (try_finally m fin s)) = requests s @ rs \<and> set rs \<subseteq> A"
    by blast
qed

lemma within_if_then: "within A m \<Longrightarrow> within A (if_then b m)"
  by (simp add: if_then_def within_ret)

lemma within_for_each: "(\<And>x. within A (f x)) \<Longrightarrow> within A (for_each f xs)"
  by (induction xs) (simp_all add: within_ret within_seq)

lemma within_apiCall: "api_request ep m d \<in> A \<Longrightarrow> within A (apiCall env ep m d)"
  by (rule withinI, rule_tac x="[api_request ep m d]" in exI) (simp add: apiCall_eq sent_def)

lemma within_prims:
  "within A (alert a)" "within A (console_error c e)" "within A (set_content el v)"
  "within A (toggle_hidden el b)" "within A (unhide el)" "within A (set_disabled el b)"
  "within A (addProgressLog h)" "within A (addMessageToChat t w)"
  by (simp_all add: within_def act_defs addProgressLog_def addMessageToChat_def)

lemma within_setLoading: "within A (setLoading b t)"
  by (rule within_quiet) (simp add: setLoading_def act_defs)

lemma within_renderDocuments: "within A (renderDocuments env)"
  by (rule within_quiet) (simp add: renderDocuments_eq)

lemma within_renderDraftViewer: "within A renderDraftViewer"
  by (rule within_quiet) (simp add: renderDraftViewer_eq)

lemma within_renderEnhancedDraftViewer: "within A (renderEnhancedDraftViewer proc)"
  by (rule within_quiet) (simp add: renderEnhancedDraftViewer_eq)

lemma within_mono: "within A m \<Longrightarrow> A \<subseteq> B \<Longrightarrow> within B m"
  unfolding within_def by (meson subset_trans)

lemma within_addProgressLog_enhanced: "within A (addProgressLog_enhanced h)"
  unfolding addProgressLog_enhanced_def by (rule within_throw)

lemma within_updatePhaseIndicator: "within A (updatePhaseIndicator n p)"
  by (rule within_quiet) (simp add: updatePhaseIndicator_def act_defs)

lemma within_getElementById: "within A (getElementById el)"
  by (rule within_quiet) (simp add: getElementById_def act_defs)

lemma within_replace_newlines: "within A (replace_newlines d)"
  by (rule within_quiet) (simp add: replace_newlines_def act_defs split: option.splits)

lemma within_reset_review: "within A reset_review"
  by (rule within_quiet) (simp add: reset_review_def act_defs)

lemmas within_rules = within_ret within_throw within_get within_await within_field within_bnd
  within_seq within_try_catch within_try_finally within_if_then within_for_each
  within_prims within_setLoading within_renderDocuments within_renderDraftViewer
  within_renderEnhancedDraftViewer within_getElementById within_replace_newlines
  within_reset_review within_addProgressLog_enhanced within_updatePhaseIndicator

lemma within_phase_details: "within A (phase_details ph)"
  unfolding phase_details_def
  by (auto intro!: within_rules split: option.splits prod.splits)

lemma within_processReviewPhases_from: "within A (processReviewPhases_from i phs)"
  by (induction phs arbitrary: i) (simp_all add: Let_def within_rules within_phase_details)

lemma within_show_phases: "within A (show_phases proc)"
  by (simp add: show_phases_def processReviewPhases_def within_ret
      within_processReviewPhases_from split: option.splits)

lemma endpoints_called_simps:
  "api_request ''/status'' ''GET'' d \<in> endpoints_called"
  "api_request ''/documents'' ''GET'' d \<in> endpoints_called"
  "api_request ''/add_document'' ''POST'' d \<in> endpoints_called"
  "api_request ''/query'' ''POST'' d \<in> endpoints_called"
  "api_request ''/generate_enhanced_review'' ''POST'' d \<in> endpoints_called"
  "api_request ''/refine_review_section'' ''POST'' d \<in> endpoints_called"
  by (simp_all add: endpoints_called_def api_request_def API_BASE_def)

lemmas within_calls = within_apiCall [OF endpoints_called_simps(1)]
  within_apiCall [OF endpoints_called_simps(2)] within_apiCall [OF endpoints_called_simps(3)]
  within_apiCall [OF endpoints_called_simps(4)] within_apiCall [OF endpoints_called_simps(5)]
  within_apiCall [OF endpoints_called_simps(6)]

lemma within_loadDocuments: "within endpoints_called (loadDocuments env)"
  unfolding loadDocuments_def
  by (intro within_rules within_calls within_upd) simp

lemma within_checkSystemStatus: "within endpoints_called (checkSystemStatus env)"
  unfolding checkSystemStatus_def
  by (auto intro!: within_rules within_calls within_loadDocuments)

lemma within_initializeApp_port: "within endpoints_called (initializeApp_port port env)"
  unfolding initializeApp_port_def
  by (intro within_rules within_checkSystemStatus)

lemma within_handleProcessArticle: "within endpoints_called (handleProcessArticle env)"
  unfolding handleProcessArticle_def
  by (auto intro!: within_rules within_calls within_upd within_loadDocuments)

lemma within_upload_single: "within endpoints_called (upload_single env file ft msg)"
  unfolding upload_single_def
  by (auto intro!: within_rules within_calls within_upd within_loadDocuments)

lemma within_handleFileSelect_one: "within endpoints_called (handleFileSelect_one env file)"
  unfolding handleFileSelect_one_def file_one_try_def
  by (auto intro!: within_rules within_calls within_upd within_upload_single simp: Let_def)

text \<open>The TypeScript original also loads the PDF.js worker.\<close>
lemma within_getDocument: "worker_request \<in> A \<Longrightarrow> within A (getDocument file)"
  by (rule withinI, rule_tac x="[worker_request]" in exI)
     (simp add: getDocument_def act_defs split: sum.splits)

lemma within_read_file_ts: "worker_request \<in> A \<Longrightarrow> within A (read_file_ts file)"
  unfolding read_file_ts_def by (auto intro!: within_rules within_getDocument)

lemma within_handleFileSelect_one_ts:
  "within (insert worker_request endpoints_called) (handleFileSelect_one_ts file)"
  unfolding handleFileSelect_one_ts_def
  by (auto intro!: within_rules within_upd within_read_file_ts)

lemma within_upload_one_of_many: "within endpoints_called (upload_one_of_many env file)"
  unfolding upload_one_of_many_def
  by (auto intro!: within_rules within_calls simp: Let_def)

lemma within_upload_one_of_many_ts:
  "within (insert worker_request endpoints_called) (upload_one_of_many_ts env file)"
  unfolding upload_one_of_many_ts_def
  by (auto intro!: within_rules within_apiCall within_read_file_ts
        simp: endpoints_called_simps)

lemma within_files_loop: "(\<And>f. within A (step f)) \<Longrightarrow> within A (files_loop step n i fs)"
  by (induction fs arbitrary: i) (simp_all add: within_rules)

lemma within_handleFileSelect_many:
  "(\<And>f. within A (step f)) \<Longrightarrow> endpoints_called \<subseteq> A \<Longrightarrow>
     within A (handleFileSelect_many step env fs)"
  unfolding handleFileSelect_many_def
  by (intro within_rules within_files_loop within_mono [OF within_loadDocuments])

lemma within_handleFileSelect: "within endpoints_called (handleFileSelect env fs)"
  unfolding handleFileSelect_def
  by (auto intro!: within_rules within_upd within_handleFileSelect_one
        within_handleFileSelect_many within_upload_one_of_many split: list.splits)

lemma within_handleFileSelect_ts:
  "within (insert worker_request endpoints_called) (handleFileSelect_ts env fs)"
  unfolding handleFileSelect_ts_def
  by (auto intro!: within_rules within_upd within_handleFileSelect_one_ts
        within_handleFileSelect_many within_upload_one_of_many_ts split: list.splits)

lemma within_reviewLength: "within A reviewLength_js" "within A reviewLength_ts"
  unfolding reviewLength_js_def reviewLength_ts_def
  by (auto intro!: within_rules split: option.splits)

lemma within_review_try:
  "within endpoints_called rl \<Longrightarrow> within endpoints_called (review_try rl env topic)"
  unfolding review_try_def
  by (auto intro!: within_rules within_calls within_upd)

lemma within_generate_review:
  "within endpoints_called rl \<Longrightarrow> within endpoints_called (generate_review rl env)"
  unfolding generate_review_def review_catch_def
  by (auto intro!: within_rules within_review_try)

lemma within_enhanced_review_try: "within endpoints_called (enhanced_review_try env topic)"
  unfolding enhanced_review_try_def
  by (auto intro!: within_rules within_calls within_upd within_show_phases)

lemma within_handleGenerateReview_enhanced:
  "within endpoints_called (handleGenerateReview_enhanced env)"
  unfolding handleGenerateReview_enhanced_def enhanced_review_catch_def
  by (auto intro!: within_rules within_enhanced_review_try)

lemma within_refinement_try: "within endpoints_called (refinement_try env c t f)"
  unfolding refinement_try_def
  by (auto intro!: within_rules within_calls within_upd)

lemma within_handleSectionRefinement: "within endpoints_called (handleSectionRefinement env t)"
  unfolding handleSectionRefinement_def
  by (auto intro!: within_rules within_refinement_try)

lemma within_handleAskQuestion: "within endpoints_called (handleAskQuestion env)"
  unfolding handleAskQuestion_def
  by (auto intro!: within_rules within_calls within_upd)

lemma within_handleAnalyzeText: "within endpoints_called (handleAnalyzeText env)"
  unfolding handleAnalyzeText_def
  by (auto intro!: within_rules within_calls within_upd)

lemma within_handleSimilarityCheck: "within endpoints_called (handleSimilarityCheck env)"
  unfolding handleSimilarityCheck_def
  by (auto intro!: within_rules within_calls within_upd)

lemma within_draftVersionControls_click: "within A (draftVersionControls_click target)"
  unfolding draftVersionControls_click_def
  by (auto intro!: within_rules within_upd split: option.splits)

lemma within_section_button_click: "within A (section_button_click k)"
  unfolding section_button_click_def showSectionContent_def
  by (auto intro!: within_rules within_upd within_draftVersionControls_click)

lemma within_editorToolbar_click: "within A (editorToolbar_click env command)"
  unfolding editorToolbar_click_def
  by (auto intro!: within_rules within_upd split: option.splits)

text \<open>
  What a listener may send: a call of one of the six endpoints; in the TypeScript original,
  when files were selected, also the request for the PDF.js worker.
\<close>
lemma within_dispatch:
  "within (if v = TS \<and> (\<exists>fs. ev = FileChange fs) then insert worker_request endpoints_called
           else endpoints_called) (dispatch v env ev)"
  unfolding dispatch_def initializeApp_def initializeApp_ts_def handleGenerateReview_def
    handleGenerateReview_ts_def
  by (auto intro!: within_initializeApp_port within_handleProcessArticle within_handleFileSelect
        within_handleFileSelect_ts within_generate_review within_reviewLength
        within_handleGenerateReview_enhanced within_handleAskQuestion within_handleAnalyzeText
        within_handleSimilarityCheck within_draftVersionControls_click
        within_section_button_click within_editorToolbar_click
      split: event.splits version.splits option.splits)

lemma within_issued:
  assumes "within A m"
  shows "requests (snd (m s)) = requests s @ issued m s" and "set (issued m s) \<subseteq> A"
proof -
  from assms obtain rs where "requests (snd (m s)) = requests s @ rs" "set rs \<subseteq> A"
    unfolding within_def by blast
  then show "requests (snd (m s)) = requests s @ issued m s" and "set (issued m s) \<subseteq> A"
    by (simp_all add: issued_def)
qed

subsection \<open>The handlers with one call\<close>

lemma run_pair: "m s = (outcome_of m s, after m s)"
  by (simp add: outcome_of_def after_def)

text \<open>handleProcessArticle\<close>

lemma process_issued:
  "issued (handleProcessArticle env) s =
     (if trim (content s ArticleInput) = [] then []
      else (let r = api_request ''/add_document'' ''POST''
                      (Some [(''content'', trim (content s ArticleInput)),
                             (''filename'', if currentFileName s \<noteq> [] then currentFileName s
                                else ''Manual_Entry_'' @ show_nat (now env) @ ''.txt'')])
            in r # (case apiCall_result (server env (requests s @ [r])) of
                      Inl e \<Rightarrow> [] | Inr j \<Rightarrow> [api_request ''/documents'' ''GET'' None])))"
  by (simp add: handleProcessArticle_def run_simps split: run_splits)

lemma process_told:
  "issued (handleProcessArticle env) s \<noteq> [] \<Longrightarrow>
   apiCall_result (server env (requests s @ [hd (issued (handleProcessArticle env) s)])) = Inl e \<Longrightarrow>
     alerts (snd (handleProcessArticle env s)) =
       alerts s @ [cross_mark @ '' Error adding document: '' @ error_message e]"
  by (auto simp add: handleProcessArticle_def run_simps split: run_splits if_splits)

text \<open>handleAskQuestion\<close>

lemma ask_issued:
  "length (issued (handleAskQuestion env) s) =
     (if trim (content s QuestionInput) = [] \<or> isLoading s \<or> documents s = [] then 0 else 1)"
  by (simp add: handleAskQuestion_def run_simps split: run_splits)

lemma ask_told:
  "issued (handleAskQuestion env) s \<noteq> [] \<Longrightarrow>
   apiCall_result (server env (requests s @ [hd (issued (handleAskQuestion env) s)])) = Inl e \<Longrightarrow>
     chatContainer (snd (handleAskQuestion env s)) =
       chatContainer s @ [(trim (content s QuestionInput), user),
                          (''Sorry, I encountered an error: '' @ error_message e, model)]
     \<and> alerts (snd (handleAskQuestion env s)) = alerts s
     \<and> reviewProgressLog (snd (handleAskQuestion env s)) = reviewProgressLog s"
  by (auto simp add: handleAskQuestion_def run_simps split: run_splits if_splits)

text \<open>handleAnalyzeText\<close>

lemma analyze_issued:
  "length (issued (handleAnalyzeText env) s) =
     (if trim (innerText env (content s WritingEditor)) = [] then 0 else 1)"
  by (simp add: handleAnalyzeText_def run_simps split: run_splits)

lemma analyze_told:
  "issued (handleAnalyzeText env) s \<noteq> [] \<Longrightarrow>
   apiCall_result (server env (requests s @ [hd (issued (handleAnalyzeText env) s)])) = Inl e \<Longrightarrow>
     content (snd (handleAnalyzeText env s)) SuggestionsPanel =
       ''<div class=\"placeholder\">Failed to analyze text.</div>''
     \<and> alerts (snd (handleAnalyzeText env s)) = alerts s
     \<and> reviewProgressLog (snd (handleAnalyzeText env s)) = reviewProgressLog s"
  by (auto simp add: handleAnalyzeText_def run_simps split: run_splits if_splits)

text \<open>handleSimilarityCheck\<close>

lemma similarity_issued:
  "length (issued (handleSimilarityCheck env) s) =
     (if trim (innerText env (content s WritingEditor)) = [] then 0 else 1)"
  by (simp add: handleSimilarityCheck_def run_simps split: run_splits)

lemma similarity_told:
  "issued (handleSimilarityCheck env) s \<noteq> [] \<Longrightarrow>
   apiCall_result (server env (requests s @ [hd (issued (handleSimilarityCheck env) s)])) = Inl e \<Longrightarrow>
     alerts (snd (handleSimilarityCheck env s)) = alerts s @ [''Error during similarity check.'']"
  by (auto simp add: handleSimilarityCheck_def run_simps split: run_splits if_splits)

subsection \<open>Generating a review\<close>

lemma review_try_run:
  "review_try rl env topic s
     = (outcome_of (review_try rl env topic) s, after (review_try rl env topic) s)"
  by (rule run_pair)

lemma review_try_ts:
  "review_try reviewLength_ts env topic s =
     (if checked s ''review-length'' = None
      then (Inl (TypeError ''Cannot read properties of null (reading 'value')''), s)
      else review_try reviewLength_js env topic s)"
  by (simp add: review_try_def reviewLength_ts_def reviewLength_js_def act_defs
      split: option.splits)

lemma review_try_ts_run:
  "after (review_try reviewLength_ts env topic) s =
     (if checked s ''review-length'' = None then s
      else after (review_try reviewLength_js env topic) s)"
  "outcome_of (review_try reviewLength_ts env topic) s =
     (if checked s ''review-length'' = None
      then Inl (TypeError ''Cannot read properties of null (reading 'value')'')
      else outcome_of (review_try reviewLength_js env topic) s)"
  by (simp_all add: after_def outcome_of_def review_try_ts)

lemma review_try_js:
  fixes s topic env
  defines "T \<equiv> review_try reviewLength_js env topic"
  defines "r \<equiv> api_request ''/query'' ''POST''
     (Some [(''question'', review_prompt (case checked s ''review-length'' of Some v \<Rightarrow> v
                                           | None \<Rightarrow> ''detailed'') topic)])"
  shows "requests (after T s) = requests s @ [r]"
    and "alerts (after T s) = alerts s"
    and "apiCall_result (server env (requests s @ [r])) = Inl e \<Longrightarrow> outcome_of T s = Inl e"
    and "draftHistory (after T s) = draftHistory s @
           (case apiCall_result (server env (requests s @ [r])) of
              Inr (JsonObj p) \<Rightarrow> [body_answer p] | _ \<Rightarrow> [])"
    and "apiCall_result (server env (requests s @ [r])) = Inr (JsonObj p) \<Longrightarrow>
         body_answer p = Some d \<Longrightarrow>
           outcome_of T s = Inr ()
           \<and> draftVersionControls (after T s) =
               map (version_button (length (draftHistory s) + 1)) [0 ..< length (draftHistory s) + 1]
           \<and> content (after T s) ReviewDraftOutput = br_of_newline d"
  unfolding T_def r_def
  by (simp_all add: after_def outcome_of_def review_try_def reviewLength_js_def run_simps
      split: sum.splits json.splits option.splits)

lemmas review_simps = generate_review_def review_catch_def review_try_run review_try_js
  run_simps

lemma review_js_issued:
  "length (issued (handleGenerateReview env) s) =
     (if trim (content s ReviewTopicInput) = [] \<or> documents s = [] then 0 else 1)"
  by (simp add: handleGenerateReview_def review_simps split: sum.splits)

lemma review_ts_issued:
  "length (issued (handleGenerateReview_ts env) s) =
     (if trim (content s ReviewTopicInput) = [] \<or> documents s = []
         \<or> checked s ''review-length'' = None then 0 else 1)"
  by (simp add: handleGenerateReview_ts_def review_simps review_try_ts_run split: sum.splits)

lemma review_js_told:
  "issued (handleGenerateReview env) s \<noteq> [] \<Longrightarrow>
   apiCall_result (server env (requests s @ [hd (issued (handleGenerateReview env) s)])) = Inl e \<Longrightarrow>
     alerts (snd (handleGenerateReview env s)) = alerts s @ [''Error generating literature review.'']
     \<and> last (reviewProgressLog (snd (handleGenerateReview env s)))
         = ''<div class=\"log-entry\">'' @ cross_mark @ '' Error: '' @ error_message e @ ''</div>''"
  by (auto simp add: handleGenerateReview_def review_simps split: sum.splits if_splits)

lemma review_ts_told:
  "issued (handleGenerateReview_ts env) s \<noteq> [] \<Longrightarrow>
   apiCall_result (server env (requests s @ [hd (issued (handleGenerateReview_ts env) s)])) = Inl e \<Longrightarrow>
     alerts (snd (handleGenerateReview_ts env s)) = alerts s @ [''Error generating literature review.'']
     \<and> last (reviewProgressLog (snd (handleGenerateReview_ts env s)))
         = ''<div class=\"log-entry\">'' @ cross_mark @ '' Error: '' @ error_message e @ ''</div>''"
  by (auto simp add: handleGenerateReview_ts_def review_simps review_try_ts_run
      split: sum.splits if_splits)

subsection \<open>The enhanced review and the refinement\<close>

text \<open>
  The \<^verbatim>\<open>try\<close> block of the enhanced \<^verbatim>\<open>handleGenerateReview\<close> ends at its first statement
  after the two reads, the call of the missing \<^verbatim>\<open>addProgressLog\<close>: nothing is sent and
  the page is as it was.
\<close>
lemma enhanced_review_try_eq:
  "enhanced_review_try env topic s = (Inl (ReferenceError ''addProgressLog is not defined''), s)"
  by (simp add: enhanced_review_try_def addProgressLog_enhanced_def act_defs)

text \<open>The \<^verbatim>\<open>catch\<close> block logs the error to the console and then throws at the same call.\<close>
lemma enhanced_review_catch_eq:
  "enhanced_review_catch e s =
     (Inl (ReferenceError ''addProgressLog is not defined''),
      s\<lparr>console_errors := console_errors s @ [(''Error generating enhanced review:'', e)]\<rparr>)"
  by (simp add: enhanced_review_catch_def addProgressLog_enhanced_def act_defs)

lemmas enhanced_simps = handleGenerateReview_enhanced_def enhanced_review_try_eq
  enhanced_review_catch_eq run_simps

lemma enhanced_issued: "issued (handleGenerateReview_enhanced env) s = []"
  by (simp add: enhanced_simps)

lemma enhanced_outcome:
  "fst (handleGenerateReview_enhanced env s) =
     (if trim (content s ReviewTopicInput) = [] \<or> documents s = [] then Inr ()
      else Inl (ReferenceError ''addProgressLog is not defined''))"
  by (simp add: enhanced_simps)

lemma enhanced_drafts:
  assumes "trim (content s ReviewTopicInput) \<noteq> []" and "documents s \<noteq> []"
  shows "draftHistory (snd (handleGenerateReview_enhanced env s)) = []"
    and "draftVersionControls (snd (handleGenerateReview_enhanced env s)) = []"
    and "alerts (snd (handleGenerateReview_enhanced env s)) = alerts s"
    and "reviewProgressLog (snd (handleGenerateReview_enhanced env s)) = []"
  using assms by (simp_all add: enhanced_simps)

text \<open>handleSectionRefinement\<close>

lemma refinement_try_run:
  "refinement_try env c t f s
     = (outcome_of (refinement_try env c t f) s, after (refinement_try env c t f) s)"
  by (rule run_pair)

lemma refinement_try_raw:
  fixes s env c t f
  defines "r \<equiv> api_request ''/refine_review_section'' ''POST''
     (Some [(''section_content'', newline_of_br c), (''refinement_type'', t), (''feedback'', f)])"
  shows "requests (snd (refinement_try env c t f s)) = requests s @ [r]"
    and "alerts (snd (refinement_try env c t f s)) = alerts s"
    and "isLoading (snd (refinement_try env c t f s)) = isLoading s"
    and "Loader \<in> hidden (snd (refinement_try env c t f s)) \<longleftrightarrow> Loader \<in> hidden s"
    and "fst (refinement_try env c t f s) =
           (case apiCall_result (server env (requests s @ [r])) of
              Inl e \<Rightarrow> Inl e
            | Inr JsonNull \<Rightarrow> Inl (TypeError ''Cannot read properties of null'')
            | Inr (JsonObj p) \<Rightarrow>
                (case body_refined_section p of
                   None \<Rightarrow> Inl (TypeError ''Cannot read properties of undefined (reading 'replace')'')
                 | Some d \<Rightarrow>
                     if RefinementFeedback \<in> absent s
                     then Inl (TypeError ''Cannot read properties of null'')
                     else Inl (ReferenceError ''addProgressLog is not defined'')))"
  unfolding r_def
  by (simp_all add: refinement_try_def run_simps split: sum.splits json.splits option.splits)

lemmas refinement_try = refinement_try_raw [folded after_def outcome_of_def]

lemmas refinement_simps = handleSectionRefinement_def refinement_try_run refinement_try run_simps

lemma refinement_total:
  "RefinementFeedback \<notin> absent s \<Longrightarrow> fst (handleSectionRefinement env t s) = Inr ()"
  by (simp add: refinement_simps split: sum.splits)

lemma refinement_issued:
  "length (issued (handleSectionRefinement env t) s) =
     (if RefinementFeedback \<in> absent s \<or> content s ReviewDraftOutput = [] then 0 else 1)"
  by (simp add: refinement_simps split: sum.splits)

lemma refinement_told:
  "issued (handleSectionRefinement env t) s \<noteq> [] \<Longrightarrow>
   apiCall_result (server env (requests s @ [hd (issued (handleSectionRefinement env t) s)]))
     = Inl e \<Longrightarrow>
     alerts (snd (handleSectionRefinement env t s))
       = alerts s @ [''Error applying refinement: '' @ error_message e]"
  by (auto simp add: refinement_simps split: sum.splits if_splits)

subsection \<open>Selecting files and loading the page\<close>

lemma upload_single_run:
  "upload_single env file ft msg s
     = (outcome_of (upload_single env file ft msg) s, after (upload_single env file ft msg) s)"
  by (rule run_pair)

lemma upload_single_raw:
  "fst (upload_single env file ft msg s) =
     (case file_dataURL file of
        Inl x \<Rightarrow> Inl x
      | Inr b \<Rightarrow>
          (case apiCall_result (server env (requests s @
                  [api_request ''/add_document'' ''POST''
                     (Some [(''content'', b), (''filename'', file_name file), (''file_type'', ft)])])) of
             Inl e \<Rightarrow> Inl e | Inr _ \<Rightarrow> Inr ()))"
  "requests (snd (upload_single env file ft msg s)) = requests s @
     (case file_dataURL file of
        Inl _ \<Rightarrow> []
      | Inr b \<Rightarrow>
          api_request ''/add_document'' ''POST''
            (Some [(''content'', b), (''filename'', file_name file), (''file_type'', ft)]) #
          (case apiCall_result (server env (requests s @
                  [api_request ''/add_document'' ''POST''
                     (Some [(''content'', b), (''filename'', file_name file), (''file_type'', ft)])])) of
             Inl _ \<Rightarrow> [] | Inr _ \<Rightarrow> [api_request ''/documents'' ''GET'' None]))"
  "alerts (snd (upload_single env file ft msg s)) = alerts s @
     (case file_dataURL file of
        Inl _ \<Rightarrow> []
      | Inr b \<Rightarrow>
          (case apiCall_result (server env (requests s @
                  [api_request ''/add_document'' ''POST''
                     (Some [(''content'', b), (''filename'', file_name file), (''file_type'', ft)])])) of
             Inl _ \<Rightarrow> [] | Inr _ \<Rightarrow> [msg]))"
  by (simp_all add: upload_single_def run_simps split: sum.splits)

lemmas upload_single = upload_single_raw [folded after_def outcome_of_def]

lemmas file_one_simps = handleFileSelect_one_def file_one_try_def upload_single_run upload_single
  run_simps

lemma file_one_issued_eq:
  "issued (handleFileSelect_one env file) s =
     (case upload_of_one file of
        [] \<Rightarrow> []
      | r # _ \<Rightarrow> r # (case apiCall_result (server env (requests s @ [r])) of
                        Inl _ \<Rightarrow> [] | Inr _ \<Rightarrow> [api_request ''/documents'' ''GET'' None]))"
  by (simp add: file_one_simps upload_of_one_def split: sum.splits)

lemma file_one_alerts:
  "upload_of_one file = r # rs \<Longrightarrow>
   apiCall_result (server env (requests s @ [r])) = Inl e \<Longrightarrow>
     alerts (snd (handleFileSelect_one env file s))
       = alerts s @ [''Error processing '' @ file_name file @ '': '' @ error_message e]"
  by (auto simp add: file_one_simps upload_of_one_def split: sum.splits if_splits)

lemma file_one_told:
  assumes "issued (handleFileSelect_one env file) s \<noteq> []"
    and "apiCall_result (server env (requests s @ [hd (issued (handleFileSelect_one env file) s)]))
          = Inl e"
  shows "length (issued (handleFileSelect_one env file) s) = 1
       \<and> alerts (snd (handleFileSelect_one env file s))
           = alerts s @ [''Error processing '' @ file_name file @ '': '' @ error_message e]"
proof (cases "upload_of_one file")
  case Nil
  with assms(1) show ?thesis by (simp add: file_one_issued_eq)
next
  case (Cons r rs)
  with assms(2) have fails: "apiCall_result (server env (requests s @ [r])) = Inl e"
    by (simp add: file_one_issued_eq)
  with Cons file_one_alerts [OF Cons fails] show ?thesis
    by (simp add: file_one_issued_eq)
qed

text \<open>A single file in the TypeScript original: nothing is uploaded, and a PDF is opened.\<close>
lemma file_one_ts_issued: "issued (handleFileSelect_one_ts file) s = worker_load file"
  by (simp add: handleFileSelect_one_ts_def read_file_ts_def getDocument_def worker_load_def
      run_simps split: sum.splits)

lemma init_issued:
  "issued (initializeApp_port port env) s =
     api_request ''/status'' ''GET'' None #
       (case apiCall_result (server env (requests s @ [api_request ''/status'' ''GET'' None])) of
          Inr (JsonObj p) \<Rightarrow>
            if body_status p = Some ''ready'' then [api_request ''/documents'' ''GET'' None] else []
        | _ \<Rightarrow> [])"
  by (simp add: initializeApp_port_def checkSystemStatus_def run_simps
      split: sum.splits json.splits)

text \<open>The loop over several files\<close>

lemma upload_one_of_many_frame:
  "fst (upload_one_of_many env file s) = Inr ()"
  "requests (snd (upload_one_of_many env file s)) = requests s @ uploads file"
  "alerts (snd (upload_one_of_many env file s))
     = alerts s @ upload_alert env uploads uploads (requests s) file"
  by (simp_all add: upload_one_of_many_def uploads_def upload_alert_def run_simps
      split: sum.splits)

lemma upload_one_of_many_ts_frame:
  "fst (upload_one_of_many_ts env file s) = Inr ()"
  "requests (snd (upload_one_of_many_ts env file s))
     = requests s @ worker_load file @ uploads_ts file"
  "alerts (snd (upload_one_of_many_ts env file s))
     = alerts s @ upload_alert env uploads_ts (\<lambda>f. worker_load f @ uploads_ts f) (requests s) file"
  by (simp_all add: upload_one_of_many_ts_def uploads_ts_def worker_load_def upload_alert_def
        read_file_ts_def getDocument_def run_simps split: sum.splits)

lemma files_loop_frame:
  assumes run: "\<And>f s. fst (step f s) = Inr ()"
    and req: "\<And>f s. requests (snd (step f s)) = requests s @ rs f"
    and al: "\<And>f s. alerts (snd (step f s)) = alerts s @ upload_alert env up rs (requests s) f"
  shows "fst (files_loop step n i fs s) = Inr ()
    \<and> requests (snd (files_loop step n i fs s)) = requests s @ concat (map rs fs)
    \<and> alerts (snd (files_loop step n i fs s))
        = alerts s @ batch_alerts env up rs (requests s) fs"
proof (induction fs arbitrary: i s)
  case Nil
  show ?case by (simp add: ret_def)
next
  case (Cons f fs)
  obtain s1 where s1: "setLoading True (''Processing '' @ show_nat (i + 1) @ ''/'' @ show_nat n
      @ '': '' @ file_name f) s = (Inr (), s1)" "requests s1 = requests s" "alerts s1 = alerts s"
    by (simp add: setLoading_def act_defs)
  obtain s2 where s2: "step f s1 = (Inr (), s2)"
    using run [of f s1] by (cases "step f s1") simp
  have step: "files_loop step n i (f # fs) s = files_loop step n (i + 1) fs s2"
    using s1(1) s2 by (simp add: seq_def bnd_def)
  have "requests s2 = requests s @ rs f"
    and "alerts s2 = alerts s @ upload_alert env up rs (requests s) f"
    using req [of f s1] al [of f s1] s1 s2 by simp_all
  with Cons.IH [of "i + 1" s2] step show ?case by simp
qed

lemma many_frame:
  assumes run: "\<And>f s. fst (step f s) = Inr ()"
    and req: "\<And>f s. requests (snd (step f s)) = requests s @ rs f"
    and al: "\<And>f s. alerts (snd (step f s)) = alerts s @ upload_alert env up rs (requests s) f"
  shows "issued (handleFileSelect_many step env fs) s
           = concat (map rs fs) @ [api_request ''/documents'' ''GET'' None]"
    and "alerts (snd (handleFileSelect_many step env fs s))
           = alerts s @ batch_alerts env up rs (requests s) fs"
    and "\<not> isLoading (snd (handleFileSelect_many step env fs s))"
    and "Loader \<in> hidden (snd (handleFileSelect_many step env fs s))"
proof -
  obtain s0 where s0: "set_content FileNameDisplay
      (''Processing '' @ show_nat (length fs) @ '' files...'') s = (Inr (), s0)"
      "requests s0 = requests s" "alerts s0 = alerts s"
    by (simp add: act_defs)
  obtain s1 where s1: "files_loop step (length fs) 0 fs s0 = (Inr (), s1)"
    using files_loop_frame [OF run req al, of "length fs" 0 fs s0]
    by (cases "files_loop step (length fs) 0 fs s0") simp
  have s1': "requests s1 = requests s @ concat (map rs fs)"
    "alerts s1 = alerts s @ batch_alerts env up rs (requests s) fs"
    using files_loop_frame [OF run req al, of "length fs" 0 fs s0] s0 s1 by simp_all
  have run_many: "snd (handleFileSelect_many step env fs s) =
      snd (seq (setLoading False Processing)
            (seq (set_content FileNameDisplay (show_nat (length fs) @ '' file(s) processed.''))
                 (set_content FileInput [])) (after (loadDocuments env) s1))"
    using s0(1) s1 by (simp add: handleFileSelect_many_def seq_def bnd_def loadDocuments_ok)
  show "issued (handleFileSelect_many step env fs) s
           = concat (map rs fs) @ [api_request ''/documents'' ''GET'' None]"
    and "alerts (snd (handleFileSelect_many step env fs s))
           = alerts s @ batch_alerts env up rs (requests s) fs"
    and "\<not> isLoading (snd (handleFileSelect_many step env fs s))"
    and "Loader \<in> hidden (snd (handleFileSelect_many step env fs s))"
    unfolding issued_def run_many
    by (simp_all add: setLoading_def act_defs loadDocuments_frame s1')
qed


lemma uploads_length: "length (uploads f) \<le> 1" "length (uploads_ts f) \<le> 1"
  by (simp_all add: uploads_def uploads_ts_def Let_def split: sum.splits)

subsection \<open>The early returns and the loading state\<close>








subsection \<open>Runs that send at most one request, and runs that send none\<close>

lemma distinct_short: "length xs \<le> 1 \<Longrightarrow> distinct xs"
  by (cases xs) simp_all

lemma one_if_any: "length xs = (if b then 0 else 1) \<Longrightarrow> xs \<noteq> [] \<Longrightarrow> length xs = 1"
  by (cases b) auto

lemma issued_none: "within {} m \<Longrightarrow> issued m s = []"
  using within_issued(2) [of "{}" m s] by simp

lemma clicks_issued:
  "issued (dispatch v env (VersionClick target)) s = []"
  "issued (dispatch v env (ToolbarClick command)) s = []"
  by (auto simp add: dispatch_def intro!: issued_none within_draftVersionControls_click
        within_section_button_click within_editorToolbar_click split: option.splits)

lemma no_files_issued: "issued (dispatch v env (FileChange [])) s = []"
  by (simp add: dispatch_def handleFileSelect_def handleFileSelect_ts_def issued_def act_defs)

lemma worker_load_length: "length (worker_load f) \<le> 1"
  by (simp add: worker_load_def split: sum.splits)

lemma review_submit_issued:
  "length (issued (dispatch v env ReviewSubmit) s) =
     (if v = Enhanced \<or> trim (content s ReviewTopicInput) = [] \<or> documents s = []
         \<or> (v = TS \<and> checked s ''review-length'' = None) then 0 else 1)"
  by (cases v) (simp_all add: dispatch_def review_js_issued review_ts_issued enhanced_issued)

lemma load_issued:
  "issued (dispatch v env Load) s =
     api_request ''/status'' ''GET'' None #
       (case apiCall_result (server env (requests s @ [api_request ''/status'' ''GET'' None])) of
          Inr (JsonObj p) \<Rightarrow>
            if body_status p = Some ''ready'' then [api_request ''/documents'' ''GET'' None] else []
        | _ \<Rightarrow> [])"
  by (simp add: dispatch_def initializeApp_def initializeApp_ts_def init_issued)

lemma requests_differ:
  "api_request ''/status'' ''GET'' None \<noteq> api_request ''/documents'' ''GET'' None"
  "api_request ''/add_document'' ''POST'' d \<noteq> api_request ''/documents'' ''GET'' None"
  by (simp_all add: api_request_def API_BASE_def)

subsection \<open>The drafts of a run\<close>





subsection \<open>A page load that fails\<close>

lemma load_told:
  assumes "apiCall_result (server env (requests s @ [api_request ''/status'' ''GET'' None])) = Inl e"
  shows "alerts (snd (dispatch v env Load s)) = alerts s"
    and "chatContainer (snd (dispatch v env Load s)) = chatContainer s"
    and "reviewProgressLog (snd (dispatch v env Load s)) = reviewProgressLog s"
    and "console_errors (snd (dispatch v env Load s))
           = console_errors s @ [(cross_mark @ '' System not ready:'', e)]"
  using assms
  by (simp_all add: dispatch_def initializeApp_def initializeApp_ts_def initializeApp_port_def
      checkSystemStatus_def run_simps)

lemma loadDocuments_returns: "fst (loadDocuments env s) = Inr ()"
  by (simp add: loadDocuments_ok)

lemma loadDocuments_quiet:
  "alerts (snd (loadDocuments env s)) = alerts s"
  "chatContainer (snd (loadDocuments env s)) = chatContainer s"
  "reviewProgressLog (snd (loadDocuments env s)) = reviewProgressLog s"
  by (simp_all add: loadDocuments_frame [unfolded after_def])

lemma loadDocuments_failure:
  "apiCall_result (server env (requests s @ [api_request ''/documents'' ''GET'' None])) = Inl e \<Longrightarrow>
     console_errors (snd (loadDocuments env s))
       = console_errors s @ [(''Error loading documents:'', e)]"
  by (simp add: loadDocuments_console [unfolded after_def])

subsection \<open>What the listeners show when their first request fails\<close>

lemma process_click_told:
  "issued (dispatch v env ProcessClick) s \<noteq> [] \<Longrightarrow>
   apiCall_result (server env (requests s @ [hd (issued (dispatch v env ProcessClick) s)])) = Inl e
   \<Longrightarrow> alerts (snd (dispatch v env ProcessClick s))
         = alerts s @ [cross_mark @ '' Error adding document: '' @ error_message e]"
  using process_told [of env s e] by (simp add: dispatch_def)

lemma review_submit_told:
  "issued (dispatch v env ReviewSubmit) s \<noteq> [] \<Longrightarrow>
   apiCall_result (server env (requests s @ [hd (issued (dispatch v env ReviewSubmit) s)])) = Inl e
   \<Longrightarrow> alerts (snd (dispatch v env ReviewSubmit s))
         = alerts s @ [''Error generating literature review.'']
       \<and> last (reviewProgressLog (snd (dispatch v env ReviewSubmit s)))
           = ''<div class=\"log-entry\">'' @ cross_mark @ '' Error: '' @ error_message e
             @ ''</div>''"
  using review_js_told [of env s e] review_ts_told [of env s e] enhanced_issued [of env s]
  by (cases v) (simp_all add: dispatch_def)

lemma ask_submit_told:
  "issued (dispatch v env AskSubmit) s \<noteq> [] \<Longrightarrow>
   apiCall_result (server env (requests s @ [hd (issued (dispatch v env AskSubmit) s)])) = Inl e
   \<Longrightarrow> chatContainer (snd (dispatch v env AskSubmit s))
         = chatContainer s @ [(trim (content s QuestionInput), user),
              (''Sorry, I encountered an error: '' @ error_message e, model)]
       \<and> alerts (snd (dispatch v env AskSubmit s)) = alerts s
       \<and> reviewProgressLog (snd (dispatch v env AskSubmit s)) = reviewProgressLog s"
  using ask_told [of env s e] by (simp add: dispatch_def)

lemma analyze_click_told:
  "issued (dispatch v env AnalyzeClick) s \<noteq> [] \<Longrightarrow>
   apiCall_result (server env (requests s @ [hd (issued (dispatch v env AnalyzeClick) s)])) = Inl e
   \<Longrightarrow> content (snd (dispatch v env AnalyzeClick s)) SuggestionsPanel
         = ''<div class=\"placeholder\">Failed to analyze text.</div>''
       \<and> alerts (snd (dispatch v env AnalyzeClick s)) = alerts s
       \<and> reviewProgressLog (snd (dispatch v env AnalyzeClick s)) = reviewProgressLog s"
  using analyze_told [of env s e] by (simp add: dispatch_def)

lemma similarity_click_told:
  "issued (dispatch v env SimilarityClick) s \<noteq> [] \<Longrightarrow>
   apiCall_result (server env (requests s @ [hd (issued (dispatch v env SimilarityClick) s)])) = Inl e
   \<Longrightarrow> alerts (snd (dispatch v env SimilarityClick s))
         = alerts s @ [''Error during similarity check.'']"
  using similarity_told [of env s e] by (simp add: dispatch_def)

lemma one_file_told:
  "v \<noteq> TS \<Longrightarrow> issued (dispatch v env (FileChange [f])) s \<noteq> [] \<Longrightarrow>
   apiCall_result (server env (requests s @ [hd (issued (dispatch v env (FileChange [f])) s)])) = Inl e
   \<Longrightarrow> alerts (snd (dispatch v env (FileChange [f]) s))
         = alerts s @ [''Error processing '' @ file_name f @ '': '' @ error_message e]"
  using file_one_told [of env f s e] by (simp add: dispatch_def handleFileSelect_def)

lemma page_load_told:
  "apiCall_result (server env (requests s @ [hd (issued (dispatch v env Load) s)])) = Inl e
   \<Longrightarrow> alerts (snd (dispatch v env Load s)) = alerts s
       \<and> chatContainer (snd (dispatch v env Load s)) = chatContainer s
       \<and> reviewProgressLog (snd (dispatch v env Load s)) = reviewProgressLog s
       \<and> console_errors (snd (dispatch v env Load s))
           = console_errors s @ [(cross_mark @ '' System not ready:'', e)]"
  using load_told [of env s e v] by (simp add: load_issued)

subsection \<open>The rounds of a selection of several files\<close>








subsection \<open>Rendering the documents\<close>

text \<open>
  C7. Whatever the list \<open>documents\<close> holds and whatever \<open>knowledgeList\<close> held before,
  \<^verbatim>\<open>renderDocuments\<close> returns normally and leaves in \<open>knowledgeList\<close> exactly one card per
  document, in the order of the list; the card is made of the document's filename, chunk
  count, \<^verbatim>\<open>processed_at\<close> (through \<^verbatim>\<open>toLocaleString\<close>) and path; and rendering a second
  time changes nothing.
\<close>
theorem renderDocuments_cards:
  "fst (renderDocuments env s) = Inr ()
   \<and> knowledgeList (snd (renderDocuments env s)) = map (document_card env) (documents s)
   \<and> document_card env \<lparr>filename = f, path = p, chunks = c, processed_at = t\<rparr> =
       ''\<newline>            <h4>'' @ f @ ''</h4>\<newline>            <p><strong>Chunks:</strong> ''
       @ show_int c @ '' | <strong>Processed:</strong> '' @ toLocaleString env t
       @ ''</p>\<newline>            <p><strong>Path:</strong> '' @ p @ ''</p>\<newline>        ''
   \<and> renderDocuments env (snd (renderDocuments env s)) = renderDocuments env s"
  by (simp add: renderDocuments_eq shown_idem document_card_def)

lemmas example_defs = blank_page_def browser_of_def answers_def a_document_def empty_object_def
  trim_def is_space_def api_request_def API_BASE_def apiCall_result_def response_ok_def
  response_json_def or_else_def unknown_error_def

subsection \<open>The endpoints\<close>

text \<open>
  C5, as stated, fails: in the TypeScript original, selecting a PDF makes the browser request
  the PDF.js worker script from \<^verbatim>\<open>esm.sh\<close>, which is none of the six endpoints.
\<close>
theorem pdf_worker_request:
  "issued (dispatch TS (browser_of (answers (Response 200 (Json (JsonObj empty_object)))))
             (FileChange [a_pdf])) blank_page
     = [\<lparr>req_method = ''GET'',
         req_url = ''https://esm.sh/pdfjs-dist@4.4.168/build/pdf.worker.mjs'',
         req_headers = [], req_body = None\<rparr>]
   \<and> (''GET'', ''https://esm.sh/pdfjs-dist@4.4.168/build/pdf.worker.mjs'')
       \<notin> {(''GET'', ''/api/status''), (''GET'', ''/api/documents''),
            (''POST'', ''/api/add_document''), (''POST'', ''/api/query''),
            (''POST'', ''/api/generate_enhanced_review''),
            (''POST'', ''/api/refine_review_section'')}"
  by (simp add: dispatch_def handleFileSelect_ts_def file_one_ts_issued worker_load_def
      worker_request_def workerSrc_def a_pdf_def)

text \<open>
  C5, amended. The log holds the requests the script itself causes: the calls of
  \<^verbatim>\<open>apiCall\<close>, its only use of \<^verbatim>\<open>fetch\<close>, and the loading of the PDF.js worker; what
  the browser requests for markup it is given to render is not counted. Whatever happens to
  the page (in each of the three versions) and whatever the backend answers, a run only adds
  to the log, and every request it adds carries one of six pairs of method and URL: GET
  /api/status, GET /api/documents, POST /api/add_document, POST /api/query, POST
  /api/generate_enhanced_review, POST /api/refine_review_section; the one exception is the
  TypeScript original when files are selected, which may also request the PDF.js worker
  script. The same six pairs bound \<^verbatim>\<open>handleSectionRefinement\<close>.
\<close>
theorem endpoints_and_pdf_worker:
  "requests (snd (dispatch v env ev s)) = requests s @ issued (dispatch v env ev) s
   \<and> (\<forall>r \<in> set (issued (dispatch v env ev) s).
         (req_method r, req_url r) \<in>
           {(''GET'', ''/api/status''), (''GET'', ''/api/documents''),
            (''POST'', ''/api/add_document''), (''POST'', ''/api/query''),
            (''POST'', ''/api/generate_enhanced_review''),
            (''POST'', ''/api/refine_review_section'')}
         \<or> (v = TS \<and> (\<exists>fs. ev = FileChange fs) \<and> r = worker_request))
   \<and> requests (snd (handleSectionRefinement env t s))
       = requests s @ issued (handleSectionRefinement env t) s
   \<and> (\<forall>r \<in> set (issued (handleSectionRefinement env t) s).
         (req_method r, req_url r) \<in>
           {(''GET'', ''/api/status''), (''GET'', ''/api/documents''),
            (''POST'', ''/api/add_document''), (''POST'', ''/api/query''),
            (''POST'', ''/api/generate_enhanced_review''),
            (''POST'', ''/api/refine_review_section'')})"
proof -
  let ?six = "{(''GET'', ''/api/status''), (''GET'', ''/api/documents''),
            (''POST'', ''/api/add_document''), (''POST'', ''/api/query''),
            (''POST'', ''/api/generate_enhanced_review''),
            (''POST'', ''/api/refine_review_section'')}"
  note d = within_issued [OF within_dispatch, of v env ev s]
  note h = within_issued [OF within_handleSectionRefinement, of env t s]
  have "\<forall>r \<in> set (issued (dispatch v env ev) s).
         (req_method r, req_url r) \<in> ?six
         \<or> (v = TS \<and> (\<exists>fs. ev = FileChange fs) \<and> r = worker_request)"
  proof
    fix r assume "r \<in> set (issued (dispatch v env ev) s)"
    with d(2) have "r \<in> (if v = TS \<and> (\<exists>fs. ev = FileChange fs)
                          then insert worker_request endpoints_called else endpoints_called)"
      by blast
    then show "(req_method r, req_url r) \<in> ?six
         \<or> (v = TS \<and> (\<exists>fs. ev = FileChange fs) \<and> r = worker_request)"
      unfolding endpoints_called_def by (auto split: if_splits)
  qed
  moreover have "\<forall>r \<in> set (issued (handleSectionRefinement env t) s).
         (req_method r, req_url r) \<in> ?six"
    using h(2) unfolding endpoints_called_def by blast
  ultimately show ?thesis using d(1) h(1) by blast
qed

text \<open>A question asked of a backend that cannot be reached: one POST to /api/query.\<close>
lemma ask_example:
  "issued (dispatch JS (browser_of (answers (Rejected ''Failed to fetch''))) AskSubmit)
      (blank_page\<lparr>documents := [a_document],
                  content := (content blank_page)(QuestionInput := ''hi'')\<rparr>)
   = [api_request ''/query'' ''POST'' (Some [(''question'', ''hi'')])]"
  by (simp add: dispatch_def handleAskQuestion_def run_simps example_defs)

theorem endpoints_and_pdf_worker_witness:
  "issued (dispatch JS (browser_of (answers (Rejected ''Failed to fetch''))) AskSubmit)
      (blank_page\<lparr>documents := [a_document],
                  content := (content blank_page)(QuestionInput := ''hi'')\<rparr>)
   = [api_request ''/query'' ''POST'' (Some [(''question'', ''hi'')])]
   \<and> (req_method (api_request ''/query'' ''POST'' (Some [(''question'', ''hi'')])),
       req_url (api_request ''/query'' ''POST'' (Some [(''question'', ''hi'')])))
       \<in> {(''GET'', ''/api/status''), (''GET'', ''/api/documents''),
            (''POST'', ''/api/add_document''), (''POST'', ''/api/query''),
            (''POST'', ''/api/generate_enhanced_review''),
            (''POST'', ''/api/refine_review_section'')}"
  using endpoints_and_pdf_worker [of JS "browser_of (answers (Rejected ''Failed to fetch''))" AskSubmit
      "blank_page\<lparr>documents := [a_document],
                  content := (content blank_page)(QuestionInput := ''hi'')\<rparr>"]
    ask_example
  by simp

subsection \<open>apiCall\<close>

text \<open>
  C9, as stated, fails: a response with status 204 is ok, it has no JSON body, and
  \<^verbatim>\<open>apiCall\<close> throws instead of returning.
\<close>
theorem apiCall_ok_without_json:
  "response_ok 204
   \<and> fst (apiCall (browser_of (answers (Response 204 (NotJson ''Unexpected end of JSON input''))))
          ''/status'' ''GET'' None blank_page)
     = Inl (SyntaxError ''Unexpected end of JSON input'')"
  by (simp add: apiCall_eq example_defs)

text \<open>
  C9, amended. \<^verbatim>\<open>apiCall\<close> returns the parsed body exactly when the response is ok and
  its body is JSON. When the response is not ok it throws and returns nothing; the message
  is the body's \<^verbatim>\<open>message\<close> field when that is a non-empty string, \<^verbatim>\<open>HTTP <status>\<close> when
  the body is a JSON object whose \<^verbatim>\<open>message\<close> is missing or empty, and
  \<^verbatim>\<open>Unknown error\<close> when the body is not JSON.
\<close>
theorem apiCall_returns:
  assumes "server env (requests s @ [api_request endpoint method data]) = response"
  shows "(fst (apiCall env endpoint method data s) = Inr j
            \<longleftrightarrow> (\<exists>st. response = Response st (Json j) \<and> response_ok st))
    \<and> (\<not> response_ok st \<and> response = Response st b \<longrightarrow>
          (\<exists>e. fst (apiCall env endpoint method data s) = Inl e))
    \<and> (\<not> response_ok st \<and> response = Response st (Json (JsonObj p))
          \<and> body_message p = Some m \<and> m \<noteq> [] \<longrightarrow>
          fst (apiCall env endpoint method data s) = Inl (Error m))
    \<and> (\<not> response_ok st \<and> response = Response st (Json (JsonObj p))
          \<and> (body_message p = None \<or> body_message p = Some []) \<longrightarrow>
          fst (apiCall env endpoint method data s) = Inl (Error (''HTTP '' @ show_nat st)))
    \<and> (\<not> response_ok st \<and> response = Response st (NotJson x) \<longrightarrow>
          fst (apiCall env endpoint method data s) = Inl (Error ''Unknown error''))"
  using assms
  by (auto simp add: apiCall_eq apiCall_result_def response_json_def or_else_def unknown_error_def
      split: fetch_result.splits body.splits json.splits option.splits if_splits)

theorem apiCall_returns_witness:
  "fst (apiCall (browser_of (answers (Response 500 (Json (JsonObj (empty_object\<lparr>body_message := Some ''boom''\<rparr>))))))
          ''/query'' ''POST'' None blank_page) = Inl (Error ''boom'')
   \<and> fst (apiCall (browser_of (answers (Response 404 (Json (JsonObj empty_object)))))
          ''/query'' ''POST'' None blank_page) = Inl (Error ''HTTP 404'')
   \<and> fst (apiCall (browser_of (answers (Response 502 (NotJson ''Unexpected token''))))
          ''/query'' ''POST'' None blank_page) = Inl (Error ''Unknown error'')
   \<and> fst (apiCall (browser_of (answers (Response 200 (Json (JsonObj empty_object)))))
          ''/query'' ''POST'' None blank_page) = Inr (JsonObj empty_object)"
proof -
  let ?boom = "empty_object\<lparr>body_message := Some ''boom''\<rparr>"
  let ?e1 = "browser_of (answers (Response 500 (Json (JsonObj ?boom))))"
  let ?e2 = "browser_of (answers (Response 404 (Json (JsonObj empty_object))))"
  let ?e3 = "browser_of (answers (Response 502 (NotJson ''Unexpected token'')))"
  let ?e4 = "browser_of (answers (Response 200 (Json (JsonObj empty_object))))"
  let ?log = "requests blank_page @ [api_request ''/query'' ''POST'' None]"
  have a1: "server ?e1 ?log = Response 500 (Json (JsonObj ?boom))"
    and a2: "server ?e2 ?log = Response 404 (Json (JsonObj empty_object))"
    and a3: "server ?e3 ?log = Response 502 (NotJson ''Unexpected token'')"
    and a4: "server ?e4 ?log = Response 200 (Json (JsonObj empty_object))"
    by (simp_all add: browser_of_def answers_def)
  have c1: "fst (apiCall ?e1 ''/query'' ''POST'' None blank_page) = Inl (Error ''boom'')"
    using apiCall_returns [OF a1, where st = 500 and p = ?boom and m = "''boom''"]
    by (simp add: response_ok_def empty_object_def)
  have "fst (apiCall ?e2 ''/query'' ''POST'' None blank_page) = Inl (Error (''HTTP '' @ show_nat 404))"
    using apiCall_returns [OF a2, where st = 404 and p = empty_object]
    by (simp add: response_ok_def empty_object_def)
  then have c2: "fst (apiCall ?e2 ''/query'' ''POST'' None blank_page) = Inl (Error ''HTTP 404'')"
    by (simp add: show_nat.simps digit_char_def)
  have c3: "fst (apiCall ?e3 ''/query'' ''POST'' None blank_page) = Inl (Error ''Unknown error'')"
    using apiCall_returns [OF a3, where st = 502 and x = "''Unexpected token''"]
    by (simp add: response_ok_def)
  have c4: "fst (apiCall ?e4 ''/query'' ''POST'' None blank_page) = Inr (JsonObj empty_object)"
    using apiCall_returns [OF a4, where j = "JsonObj empty_object"]
    by (simp add: response_ok_def)
  from c1 c2 c3 c4 show ?thesis by simp
qed

subsection \<open>The draft version buttons\<close>

lemmas parse_defs = draftText_def or_else_def parseInt_def element_at_def is_space_def
  is_digit_def digit_value_def digits_value_def Let_def

text \<open>
  C10, as stated, fails: with the one draft \<^verbatim>\<open>hello\<close> in the history, a click on a button
  whose stored index is \<^verbatim>\<open>abc\<close> shows the fallback text and not the draft at index 0; a
  button without a stored index shows the draft.
\<close>
theorem unparseable_index_not_zero:
  "content (snd (draftVersionControls_click (Some 0)
      (blank_page\<lparr>draftHistory := [Some ''hello''],
                  draftVersionControls :=
                    [\<lparr>label = ''Draft'', data_index = Some ''abc'', data_section = None,
                      active = True\<rparr>]\<rparr>))) ReviewDraftOutput
     = ''Could not load this version.''
   \<and> content (snd (draftVersionControls_click (Some 0)
      (blank_page\<lparr>draftHistory := [Some ''hello''],
                  draftVersionControls :=
                    [\<lparr>label = ''Draft'', data_index = None, data_section = None,
                      active = True\<rparr>]\<rparr>))) ReviewDraftOutput
     = ''hello''"
  by (simp add: draftVersionControls_click_def act_defs blank_page_def parse_defs
        br_of_newline_def)

text \<open>
  C10, amended. A click on the version buttons never throws, whatever the history holds.
  The button's stored index is read with \<^verbatim>\<open>parseInt\<close>, a missing or empty index counting
  as \<^verbatim>\<open>0\<close>. When the index is a number inside the array and the draft there is a non-empty
  string, the output pane shows that draft with every newline replaced by \<^verbatim>\<open><br>\<close>. When
  \<^verbatim>\<open>parseInt\<close> finds no number, when the number is outside the array, or when the draft
  there is missing or empty, the pane shows \<^verbatim>\<open>Could not load this version.\<close>
\<close>
theorem version_click_never_faults:
  "fst (dispatch v env (VersionClick target) s) = Inr ()
   \<and> fst (draftVersionControls_click target s) = Inr ()
   \<and> (k < length (draftVersionControls s) \<longrightarrow>
        content (snd (draftVersionControls_click (Some k) s)) ReviewDraftOutput
          = br_of_newline (draftText (data_index (draftVersionControls s ! k)) (draftHistory s)))
   \<and> draftText None h = draftText (Some ''0'') h
   \<and> draftText (Some []) h = draftText (Some ''0'') h
   \<and> parseInt ''0'' = Some 0
   \<and> (parseInt (or_else idx ''0'') = Some i \<and> 0 \<le> i \<and> nat i < length h
         \<and> h ! nat i = Some d \<and> d \<noteq> [] \<longrightarrow> draftText idx h = d)
   \<and> (parseInt (or_else idx ''0'') = None
         \<or> (parseInt (or_else idx ''0'') = Some i \<and> (i < 0 \<or> length h \<le> nat i))
         \<or> (parseInt (or_else idx ''0'') = Some i \<and> 0 \<le> i \<and> nat i < length h
              \<and> (h ! nat i = None \<or> h ! nat i = Some []))
       \<longrightarrow> draftText idx h = ''Could not load this version.'')"
proof -
  have 1: "fst (dispatch v env (VersionClick target) s) = Inr ()"
    by (rule total_unit [OF total_dispatch]) simp
  have 2: "fst (draftVersionControls_click target s) = Inr ()"
    by (rule total_unit [OF total_draftVersionControls_click])
  have 3: "k < length (draftVersionControls s) \<longrightarrow>
        content (snd (draftVersionControls_click (Some k) s)) ReviewDraftOutput
          = br_of_newline (draftText (data_index (draftVersionControls s ! k)) (draftHistory s))"
    by (simp add: draftVersionControls_click_def act_defs)
  have 4: "draftText None h = draftText (Some ''0'') h"
    and 5: "draftText (Some []) h = draftText (Some ''0'') h"
    by (simp_all add: draftText_def or_else_def)
  have 6: "parseInt ''0'' = Some 0"
    by (simp add: parse_defs)
  have 7: "parseInt (or_else idx ''0'') = Some i \<and> 0 \<le> i \<and> nat i < length h
         \<and> h ! nat i = Some d \<and> d \<noteq> [] \<longrightarrow> draftText idx h = d"
    by (simp add: draftText_def element_at_def or_else_def)
  have 8: "parseInt (or_else idx ''0'') = None
         \<or> (parseInt (or_else idx ''0'') = Some i \<and> (i < 0 \<or> length h \<le> nat i))
         \<or> (parseInt (or_else idx ''0'') = Some i \<and> 0 \<le> i \<and> nat i < length h
              \<and> (h ! nat i = None \<or> h ! nat i = Some []))
       \<longrightarrow> draftText idx h = ''Could not load this version.''"
    by (auto simp add: draftText_def element_at_def or_else_def [of "_ ! _"] or_else_def [of None])
  from 1 2 3 4 5 6 7 8 show ?thesis by blast
qed

text \<open>A history of two drafts: the second button shows the second draft, line by line.\<close>
theorem version_click_never_faults_witness:
  "content (snd (draftVersionControls_click (Some 1)
      (blank_page\<lparr>draftHistory := [Some ''hello'', Some ''a\<newline>b''],
                  draftVersionControls := [version_button 2 0, version_button 2 1]\<rparr>)))
      ReviewDraftOutput = ''a<br>b''
   \<and> draftText (Some ''7'') [Some ''hello'', Some ''a\<newline>b''] = ''Could not load this version.''"
proof -
  let ?h = "[Some ''hello'', Some ''a\<newline>b'']"
  let ?s = "blank_page\<lparr>draftHistory := ?h,
                  draftVersionControls := [version_button 2 0, version_button 2 1]\<rparr>"
  note t = version_click_never_faults [where s = ?s and k = 1 and h = ?h]
  have i1: "parseInt (or_else (Some ''1'') ''0'') = Some 1"
    and i7: "parseInt (or_else (Some ''7'') ''0'') = Some 7"
    by (simp_all add: parse_defs)
  have "draftText (Some ''1'') ?h = ''a\<newline>b''"
    using t [where idx = "Some ''1''" and i = 1 and d = "''a\<newline>b''"] i1 by simp
  moreover have "content (snd (draftVersionControls_click (Some 1) ?s)) ReviewDraftOutput
      = br_of_newline (draftText (Some ''1'') ?h)"
    using t by (simp add: version_button_def show_nat.simps digit_char_def)
  moreover have "draftText (Some ''7'') ?h = ''Could not load this version.''"
    using t [where idx = "Some ''7''" and i = 7] i7 by simp
  ultimately show ?thesis by (simp add: br_of_newline_def)
qed

section \<open>The handlers and the backend\<close>

subsection \<open>One exchange per operation\<close>

text \<open>
  C3, as stated, fails: with text in the article field and a backend that accepts the
  document, \<^verbatim>\<open>handleProcessArticle\<close> sends two requests, the upload and the reload of the
  document list.
\<close>
theorem process_article_two_requests:
  "length (issued (dispatch JS (browser_of (answers (Response 200 (Json (JsonObj empty_object)))))
                     ProcessClick)
             (blank_page\<lparr>content := (content blank_page)(ArticleInput := ''some text'')\<rparr>)) = 2"
  by (simp add: dispatch_def process_issued example_defs)

text \<open>
  C3, amended. A run of the handlers for asking a question, analysing text and checking
  similarity, and of \<^verbatim>\<open>handleGenerateReview\<close> in \<^verbatim>\<open>src/index.js\<close> and in the TypeScript
  original, sends exactly one request when its guard lets it through and none otherwise (the
  guards: a non-empty trimmed input; documents present, for the review and the question; no
  load in progress, for the question; a checked length option, in the TypeScript original).
  \<^verbatim>\<open>handleProcessArticle\<close> sends none when the trimmed article text is empty, and otherwise
  the upload, followed by one GET /api/documents exactly when the upload succeeded. In every
  case the run only appends to the log.
\<close>
theorem one_exchange_per_operation:
  "requests (snd (dispatch v env ev s)) = requests s @ issued (dispatch v env ev) s
   \<and> (ev = AskSubmit \<longrightarrow>
        length (issued (dispatch v env ev) s) =
          (if trim (content s QuestionInput) = [] \<or> isLoading s \<or> documents s = [] then 0 else 1))
   \<and> (ev = AnalyzeClick \<or> ev = SimilarityClick \<longrightarrow>
        length (issued (dispatch v env ev) s) =
          (if trim (innerText env (content s WritingEditor)) = [] then 0 else 1))
   \<and> (ev = ReviewSubmit \<and> v \<noteq> Enhanced \<longrightarrow>
        length (issued (dispatch v env ev) s) =
          (if trim (content s ReviewTopicInput) = [] \<or> documents s = []
              \<or> (v = TS \<and> checked s ''review-length'' = None) then 0 else 1))
   \<and> (ev = ProcessClick \<longrightarrow>
        issued (dispatch v env ev) s =
          (if trim (content s ArticleInput) = [] then []
           else (let r = api_request ''/add_document'' ''POST''
                           (Some [(''content'', trim (content s ArticleInput)),
                                  (''filename'', if currentFileName s \<noteq> [] then currentFileName s
                                     else ''Manual_Entry_'' @ show_nat (now env) @ ''.txt'')])
                 in r # (case apiCall_result (server env (requests s @ [r])) of
                           Inl e \<Rightarrow> [] | Inr j \<Rightarrow> [api_request ''/documents'' ''GET'' None]))))"
proof -
  have "requests (snd (dispatch v env ev s)) = requests s @ issued (dispatch v env ev) s"
    by (rule within_issued [OF within_dispatch])
  moreover have "ev = AskSubmit \<longrightarrow> length (issued (dispatch v env ev) s) =
          (if trim (content s QuestionInput) = [] \<or> isLoading s \<or> documents s = [] then 0 else 1)"
    by (simp add: dispatch_def ask_issued)
  moreover have "ev = AnalyzeClick \<or> ev = SimilarityClick \<longrightarrow>
        length (issued (dispatch v env ev) s) =
          (if trim (innerText env (content s WritingEditor)) = [] then 0 else 1)"
    by (auto simp add: dispatch_def analyze_issued similarity_issued)
  moreover have "ev = ReviewSubmit \<and> v \<noteq> Enhanced \<longrightarrow>
        length (issued (dispatch v env ev) s) =
          (if trim (content s ReviewTopicInput) = [] \<or> documents s = []
              \<or> (v = TS \<and> checked s ''review-length'' = None) then 0 else 1)"
    by (simp add: review_submit_issued)
  moreover have "ev = ProcessClick \<longrightarrow>
        issued (dispatch v env ev) s =
          (if trim (content s ArticleInput) = [] then []
           else (let r = api_request ''/add_document'' ''POST''
                           (Some [(''content'', trim (content s ArticleInput)),
                                  (''filename'', if currentFileName s \<noteq> [] then currentFileName s
                                     else ''Manual_Entry_'' @ show_nat (now env) @ ''.txt'')])
                 in r # (case apiCall_result (server env (requests s @ [r])) of
                           Inl e \<Rightarrow> [] | Inr j \<Rightarrow> [api_request ''/documents'' ''GET'' None])))"
    by (simp add: dispatch_def process_issued)
  ultimately show ?thesis by blast
qed

text \<open>A question asked with one document loaded: one request.\<close>
theorem one_exchange_per_operation_witness:
  "length (issued (dispatch JS (browser_of (answers (Rejected ''Failed to fetch''))) AskSubmit)
      (blank_page\<lparr>documents := [a_document],
                  content := (content blank_page)(QuestionInput := ''hi'')\<rparr>)) = 1"
  using one_exchange_per_operation [of JS "browser_of (answers (Rejected ''Failed to fetch''))"
      AskSubmit "blank_page\<lparr>documents := [a_document],
                  content := (content blank_page)(QuestionInput := ''hi'')\<rparr>"]
  by (simp add: example_defs)

subsection \<open>No retry\<close>

text \<open>
  C6. Every call of \<^verbatim>\<open>apiCall\<close> adds exactly one request to the log, whatever the backend
  answers. When the first request of a run fails (loading the page, adding a document,
  generating a review, asking, analysing, checking similarity, selecting one file in
  \<^verbatim>\<open>src/index.js\<close>), the run sends no other request, and a refinement sends at most one.
  Unless several files are selected, no run sends the same request twice. A selection of
  several files sends, whatever the backend answers, the requests of one round per file, in
  the order of the files, and then the reload: a round holds at most one upload, after the
  loading of the PDF.js worker where the TypeScript original opens a PDF.
\<close>
theorem failed_request_not_retried:
  "requests (snd (apiCall env endpoint method data s))
     = requests s @ [api_request endpoint method data]
   \<and> ((ev \<in> {Load, ProcessClick, ReviewSubmit, AskSubmit, AnalyzeClick, SimilarityClick}
         \<or> (ev = FileChange [f] \<and> v \<noteq> TS))
        \<and> issued (dispatch v env ev) s \<noteq> []
        \<and> apiCall_result (server env (requests s @ [hd (issued (dispatch v env ev) s)])) = Inl e
       \<longrightarrow> length (issued (dispatch v env ev) s) = 1)
   \<and> length (issued (handleSectionRefinement env t) s) \<le> 1
   \<and> ((\<forall>fs. ev = FileChange fs \<longrightarrow> length fs \<le> 1) \<longrightarrow> distinct (issued (dispatch v env ev) s))
   \<and> (2 \<le> length files \<longrightarrow>
        issued (dispatch v env (FileChange files)) s
          = concat (map (round_requests v) files) @ [api_request ''/documents'' ''GET'' None])
   \<and> round_requests v f = (if v = TS then worker_load f else []) @ round_upload v f
   \<and> length (round_upload v f) \<le> 1"
proof -
  have a: "requests (snd (apiCall env endpoint method data s))
     = requests s @ [api_request endpoint method data]"
    by (simp add: apiCall_eq sent_def)
  have b: "(ev \<in> {Load, ProcessClick, ReviewSubmit, AskSubmit, AnalyzeClick, SimilarityClick}
         \<or> (ev = FileChange [f] \<and> v \<noteq> TS))
        \<and> issued (dispatch v env ev) s \<noteq> []
        \<and> apiCall_result (server env (requests s @ [hd (issued (dispatch v env ev) s)])) = Inl e
       \<longrightarrow> length (issued (dispatch v env ev) s) = 1"
  proof (intro impI, elim conjE)
    assume ev: "ev \<in> {Load, ProcessClick, ReviewSubmit, AskSubmit, AnalyzeClick, SimilarityClick}
         \<or> (ev = FileChange [f] \<and> v \<noteq> TS)"
      and ne: "issued (dispatch v env ev) s \<noteq> []"
      and fails: "apiCall_result (server env (requests s @ [hd (issued (dispatch v env ev) s)])) = Inl e"
    from ev consider (load) "ev = Load" | (process) "ev = ProcessClick" | (review) "ev = ReviewSubmit"
      | (ask) "ev = AskSubmit" | (analyze) "ev = AnalyzeClick" | (similarity) "ev = SimilarityClick"
      | (files) "ev = FileChange [f]" "v \<noteq> TS"
      by auto
    then show "length (issued (dispatch v env ev) s) = 1"
    proof cases
      case load
      with fails show ?thesis
        by (simp add: load_issued)
    next
      case process
      with ne fails show ?thesis
        by (simp add: dispatch_def process_issued Let_def split: if_splits)
    next
      case review
      with ne show ?thesis
        using one_if_any [OF review_submit_issued, of v env s] by simp
    next
      case ask
      with ne show ?thesis
        using one_if_any [OF ask_issued, of env s] by (simp add: dispatch_def)
    next
      case analyze
      with ne show ?thesis
        using one_if_any [OF analyze_issued, of env s] by (simp add: dispatch_def)
    next
      case similarity
      with ne show ?thesis
        using one_if_any [OF similarity_issued, of env s] by (simp add: dispatch_def)
    next
      case files
      with ne fails show ?thesis
        using file_one_told [of env f s e]
        by (simp add: dispatch_def handleFileSelect_def)
    qed
  qed
  have c: "length (issued (handleSectionRefinement env t) s) \<le> 1"
    by (simp add: refinement_issued)
  have d: "(\<forall>fs. ev = FileChange fs \<longrightarrow> length fs \<le> 1) \<longrightarrow> distinct (issued (dispatch v env ev) s)"
  proof
    assume few: "\<forall>fs. ev = FileChange fs \<longrightarrow> length fs \<le> 1"
    show "distinct (issued (dispatch v env ev) s)"
    proof (cases ev)
      case Load
      then show ?thesis
        by (simp add: load_issued requests_differ split: sum.splits json.splits)
    next
      case ProcessClick
      then show ?thesis
        by (simp add: dispatch_def process_issued requests_differ Let_def split: sum.splits)
    next
      case (FileChange fs)
      with few have "fs = [] \<or> (\<exists>g. fs = [g])"
        by (cases fs) auto
      then show ?thesis
      proof
        assume "fs = []"
        with FileChange show ?thesis by (simp add: no_files_issued)
      next
        assume "\<exists>g. fs = [g]"
        then obtain g where "fs = [g]" ..
        with FileChange show ?thesis
          by (cases "v = TS")
             (simp_all add: dispatch_def handleFileSelect_def handleFileSelect_ts_def
                file_one_ts_issued file_one_issued_eq upload_of_one_def requests_differ
                distinct_short [OF worker_load_length] Let_def
                split: list.splits sum.splits)
      qed
    next
      case ReviewSubmit
      then show ?thesis by (simp add: distinct_short review_submit_issued)
    next
      case AskSubmit
      then show ?thesis by (simp add: distinct_short dispatch_def ask_issued)
    next
      case AnalyzeClick
      then show ?thesis by (simp add: distinct_short dispatch_def analyze_issued)
    next
      case SimilarityClick
      then show ?thesis by (simp add: distinct_short dispatch_def similarity_issued)
    next
      case (VersionClick target)
      then show ?thesis by (simp add: clicks_issued)
    next
      case (ToolbarClick command)
      then show ?thesis by (simp add: clicks_issued)
    qed
  qed
  have e: "2 \<le> length files \<longrightarrow>
        issued (dispatch v env (FileChange files)) s
          = concat (map (round_requests v) files) @ [api_request ''/documents'' ''GET'' None]"
  proof
    assume "2 \<le> length files"
    then obtain f1 f2 fs where files: "files = f1 # f2 # fs"
      by (cases files; cases "tl files") auto
    have js: "issued (handleFileSelect_many (upload_one_of_many env) env files) s
                = concat (map uploads files) @ [api_request ''/documents'' ''GET'' None]"
      by (rule many_frame(1) [of "upload_one_of_many env" uploads env uploads,
            OF upload_one_of_many_frame])
    have ts: "issued (handleFileSelect_many (upload_one_of_many_ts env) env files) s
                = concat (map (\<lambda>f. worker_load f @ uploads_ts f) files)
                  @ [api_request ''/documents'' ''GET'' None]"
      by (rule many_frame(1) [of "upload_one_of_many_ts env"
            "\<lambda>f. worker_load f @ uploads_ts f" env uploads_ts,
            OF upload_one_of_many_ts_frame])
    show "issued (dispatch v env (FileChange files)) s
          = concat (map (round_requests v) files) @ [api_request ''/documents'' ''GET'' None]"
    proof (cases "v = TS")
      case True
      have "round_requests v = (\<lambda>f. worker_load f @ uploads_ts f)"
        using True by (simp add: round_requests_def fun_eq_iff)
      with True ts show ?thesis
        by (simp add: dispatch_def handleFileSelect_ts_def files)
    next
      case False
      have "round_requests v = uploads"
        using False by (simp add: round_requests_def fun_eq_iff)
      with False js show ?thesis
        by (simp add: dispatch_def handleFileSelect_def files)
    qed
  qed
  have g: "round_requests v f = (if v = TS then worker_load f else []) @ round_upload v f"
    by (simp add: round_requests_def round_upload_def)
  have h: "length (round_upload v f) \<le> 1"
    using uploads_length [of f] by (simp add: round_upload_def)
  from a b c d e g h show ?thesis by blast
qed

text \<open>A question that the backend cannot be reached for: the one request is all.\<close>
theorem failed_request_not_retried_witness:
  "issued (dispatch JS (browser_of (answers (Rejected ''Failed to fetch''))) AskSubmit)
      (blank_page\<lparr>documents := [a_document],
                  content := (content blank_page)(QuestionInput := ''hi'')\<rparr>) \<noteq> []
   \<and> apiCall_result (Rejected ''Failed to fetch'') = Inl (TypeError ''Failed to fetch'')
   \<and> length (issued (dispatch JS (browser_of (answers (Rejected ''Failed to fetch''))) AskSubmit)
      (blank_page\<lparr>documents := [a_document],
                  content := (content blank_page)(QuestionInput := ''hi'')\<rparr>)) = 1"
  using failed_request_not_retried [where env = "browser_of (answers (Rejected ''Failed to fetch''))"
      and ev = AskSubmit and v = JS and e = "TypeError ''Failed to fetch''"
      and s = "blank_page\<lparr>documents := [a_document],
                  content := (content blank_page)(QuestionInput := ''hi'')\<rparr>"] ask_example
  by (simp add: example_defs)

subsection \<open>The loading state\<close>




subsection \<open>The first draft\<close>




subsection \<open>Failures of the backend\<close>

text \<open>
  C1, as stated, fails: when a question cannot be sent, \<^verbatim>\<open>handleAskQuestion\<close> raises no alert
  and writes nothing to the progress log; it puts the error into the chat.
\<close>
theorem failed_question_in_chat_only:
  "alerts (snd (dispatch JS (browser_of (answers (Rejected ''Failed to fetch''))) AskSubmit
      (blank_page\<lparr>documents := [a_document],
                  content := (content blank_page)(QuestionInput := ''hi'')\<rparr>))) = []
   \<and> reviewProgressLog (snd (dispatch JS (browser_of (answers (Rejected ''Failed to fetch'')))
      AskSubmit
      (blank_page\<lparr>documents := [a_document],
                  content := (content blank_page)(QuestionInput := ''hi'')\<rparr>))) = []
   \<and> chatContainer (snd (dispatch JS (browser_of (answers (Rejected ''Failed to fetch'')))
      AskSubmit
      (blank_page\<lparr>documents := [a_document],
                  content := (content blank_page)(QuestionInput := ''hi'')\<rparr>)))
     = [(''hi'', user), (''Sorry, I encountered an error: Failed to fetch'', model)]"
  by (simp add: dispatch_def handleAskQuestion_def run_simps example_defs)

text \<open>
  C1, amended. A failure of a backend request is caught inside the handler: every listener
  of \<^verbatim>\<open>src/index.js\<close> and of the TypeScript original returns normally whatever the backend
  answers, and so does every listener of the enhanced version other than its
  \<^verbatim>\<open>handleGenerateReview\<close>, and \<^verbatim>\<open>handleSectionRefinement\<close> when its feedback field
  exists. How a run whose first request fails tells the user depends on the handler: adding
  a document, the similarity check, the upload of a single file and the refinement raise an
  alert; generating a review raises an alert and appends an entry to the progress log;
  asking a question appends an error message to the chat; analysing text writes the failure
  into the suggestions panel; loading the page shows nothing and writes the error to the
  console. \<^verbatim>\<open>loadDocuments\<close> always returns normally, changes no alert, chat or progress
  log, and writes a failure of its request to the console.
\<close>
theorem backend_failure_caught:
  "(v \<noteq> Enhanced \<or> ev \<noteq> ReviewSubmit \<longrightarrow> fst (dispatch v env ev s) = Inr ())
   \<and> (RefinementFeedback \<notin> absent s \<longrightarrow> fst (handleSectionRefinement env t s) = Inr ())
   \<and> (issued (dispatch v env ev) s \<noteq> []
        \<and> apiCall_result (server env (requests s @ [hd (issued (dispatch v env ev) s)])) = Inl e
       \<longrightarrow>
         (ev = ProcessClick \<longrightarrow>
            alerts (snd (dispatch v env ev s))
              = alerts s @ [cross_mark @ '' Error adding document: '' @ error_message e])
       \<and> (ev = ReviewSubmit \<longrightarrow>
            alerts (snd (dispatch v env ev s))
              = alerts s @ [''Error generating literature review.'']
            \<and> last (reviewProgressLog (snd (dispatch v env ev s)))
                = ''<div class=\"log-entry\">'' @ cross_mark @ '' Error: '' @ error_message e
                  @ ''</div>'')
       \<and> (ev = AskSubmit \<longrightarrow>
            chatContainer (snd (dispatch v env ev s))
              = chatContainer s @ [(trim (content s QuestionInput), user),
                   (''Sorry, I encountered an error: '' @ error_message e, model)]
            \<and> alerts (snd (dispatch v env ev s)) = alerts s
            \<and> reviewProgressLog (snd (dispatch v env ev s)) = reviewProgressLog s)
       \<and> (ev = AnalyzeClick \<longrightarrow>
            content (snd (dispatch v env ev s)) SuggestionsPanel
              = ''<div class=\"placeholder\">Failed to analyze text.</div>''
            \<and> alerts (snd (dispatch v env ev s)) = alerts s
            \<and> reviewProgressLog (snd (dispatch v env ev s)) = reviewProgressLog s)
       \<and> (ev = SimilarityClick \<longrightarrow>
            alerts (snd (dispatch v env ev s)) = alerts s @ [''Error during similarity check.''])
       \<and> (ev = FileChange [f] \<and> v \<noteq> TS \<longrightarrow>
            alerts (snd (dispatch v env ev s))
              = alerts s @ [''Error processing '' @ file_name f @ '': '' @ error_message e])
       \<and> (ev = Load \<longrightarrow>
            alerts (snd (dispatch v env ev s)) = alerts s
            \<and> chatContainer (snd (dispatch v env ev s)) = chatContainer s
            \<and> reviewProgressLog (snd (dispatch v env ev s)) = reviewProgressLog s
            \<and> console_errors (snd (dispatch v env ev s))
                = console_errors s @ [(cross_mark @ '' System not ready:'', e)]))
   \<and> (issued (handleSectionRefinement env t) s \<noteq> []
        \<and> apiCall_result (server env (requests s @ [hd (issued (handleSectionRefinement env t) s)]))
            = Inl e
       \<longrightarrow> alerts (snd (handleSectionRefinement env t s))
             = alerts s @ [''Error applying refinement: '' @ error_message e])
   \<and> fst (loadDocuments env s) = Inr ()
   \<and> alerts (snd (loadDocuments env s)) = alerts s
   \<and> chatContainer (snd (loadDocuments env s)) = chatContainer s
   \<and> reviewProgressLog (snd (loadDocuments env s)) = reviewProgressLog s
   \<and> (apiCall_result (server env (requests s @ [api_request ''/documents'' ''GET'' None])) = Inl e
       \<longrightarrow> console_errors (snd (loadDocuments env s))
             = console_errors s @ [(''Error loading documents:'', e)])"
proof -
  let ?ne = "issued (dispatch v env ev) s \<noteq> []"
  let ?fails = "apiCall_result (server env (requests s @ [hd (issued (dispatch v env ev) s)])) = Inl e"
  have a: "v \<noteq> Enhanced \<or> ev \<noteq> ReviewSubmit \<longrightarrow> fst (dispatch v env ev s) = Inr ()"
    using total_unit [OF total_dispatch, of v ev env s] by blast
  have b: "RefinementFeedback \<notin> absent s \<longrightarrow> fst (handleSectionRefinement env t s) = Inr ()"
    by (simp add: refinement_total)
  have process: "?ne \<and> ?fails \<longrightarrow> ev = ProcessClick \<longrightarrow>
            alerts (snd (dispatch v env ev s))
              = alerts s @ [cross_mark @ '' Error adding document: '' @ error_message e]"
    using process_click_told [of v env s e] by blast
  have review: "?ne \<and> ?fails \<longrightarrow> ev = ReviewSubmit \<longrightarrow>
            alerts (snd (dispatch v env ev s))
              = alerts s @ [''Error generating literature review.'']
            \<and> last (reviewProgressLog (snd (dispatch v env ev s)))
                = ''<div class=\"log-entry\">'' @ cross_mark @ '' Error: '' @ error_message e
                  @ ''</div>''"
    using review_submit_told [of v env s e] by blast
  have ask: "?ne \<and> ?fails \<longrightarrow> ev = AskSubmit \<longrightarrow>
            chatContainer (snd (dispatch v env ev s))
              = chatContainer s @ [(trim (content s QuestionInput), user),
                   (''Sorry, I encountered an error: '' @ error_message e, model)]
            \<and> alerts (snd (dispatch v env ev s)) = alerts s
            \<and> reviewProgressLog (snd (dispatch v env ev s)) = reviewProgressLog s"
    using ask_submit_told [of v env s e] by blast
  have analyze: "?ne \<and> ?fails \<longrightarrow> ev = AnalyzeClick \<longrightarrow>
            content (snd (dispatch v env ev s)) SuggestionsPanel
              = ''<div class=\"placeholder\">Failed to analyze text.</div>''
            \<and> alerts (snd (dispatch v env ev s)) = alerts s
            \<and> reviewProgressLog (snd (dispatch v env ev s)) = reviewProgressLog s"
    using analyze_click_told [of v env s e] by blast
  have similarity: "?ne \<and> ?fails \<longrightarrow> ev = SimilarityClick \<longrightarrow>
            alerts (snd (dispatch v env ev s)) = alerts s @ [''Error during similarity check.'']"
    using similarity_click_told [of v env s e] by blast
  have one_file: "?ne \<and> ?fails \<longrightarrow> ev = FileChange [f] \<and> v \<noteq> TS \<longrightarrow>
            alerts (snd (dispatch v env ev s))
              = alerts s @ [''Error processing '' @ file_name f @ '': '' @ error_message e]"
    using one_file_told [of v env f s e] by blast
  have load: "?ne \<and> ?fails \<longrightarrow> ev = Load \<longrightarrow>
            alerts (snd (dispatch v env ev s)) = alerts s
            \<and> chatContainer (snd (dispatch v env ev s)) = chatContainer s
            \<and> reviewProgressLog (snd (dispatch v env ev s)) = reviewProgressLog s
            \<and> console_errors (snd (dispatch v env ev s))
                = console_errors s @ [(cross_mark @ '' System not ready:'', e)]"
    using page_load_told [of env s v e] by blast
  have refinement: "issued (handleSectionRefinement env t) s \<noteq> []
        \<and> apiCall_result (server env (requests s @ [hd (issued (handleSectionRefinement env t) s)]))
            = Inl e
       \<longrightarrow> alerts (snd (handleSectionRefinement env t s))
             = alerts s @ [''Error applying refinement: '' @ error_message e]"
    using refinement_told [of env t s e] by simp
  have reload: "fst (loadDocuments env s) = Inr ()"
    "alerts (snd (loadDocuments env s)) = alerts s"
    "chatContainer (snd (loadDocuments env s)) = chatContainer s"
    "reviewProgressLog (snd (loadDocuments env s)) = reviewProgressLog s"
    by (simp_all only: loadDocuments_returns loadDocuments_quiet)
  have reload_fails:
    "apiCall_result (server env (requests s @ [api_request ''/documents'' ''GET'' None])) = Inl e
       \<longrightarrow> console_errors (snd (loadDocuments env s))
             = console_errors s @ [(''Error loading documents:'', e)]"
    using loadDocuments_failure [of env s e] by blast
  from a b process review ask analyze similarity one_file load refinement reload reload_fails
  show ?thesis by blast
qed

text \<open>A document that cannot be sent: the handler returns and has raised the alert.\<close>
theorem backend_failure_caught_witness:
  "fst (dispatch JS (browser_of (answers (Rejected ''Failed to fetch''))) ProcessClick
      (blank_page\<lparr>content := (content blank_page)(ArticleInput := ''some text'')\<rparr>)) = Inr ()
   \<and> issued (dispatch JS (browser_of (answers (Rejected ''Failed to fetch''))) ProcessClick)
      (blank_page\<lparr>content := (content blank_page)(ArticleInput := ''some text'')\<rparr>) \<noteq> []
   \<and> alerts (snd (dispatch JS (browser_of (answers (Rejected ''Failed to fetch''))) ProcessClick
      (blank_page\<lparr>content := (content blank_page)(ArticleInput := ''some text'')\<rparr>)))
     = [cross_mark @ '' Error adding document: Failed to fetch'']"
proof -
  let ?env = "browser_of (answers (Rejected ''Failed to fetch''))"
  let ?s = "blank_page\<lparr>content := (content blank_page)(ArticleInput := ''some text'')\<rparr>"
  have sent: "issued (dispatch JS ?env ProcessClick) ?s \<noteq> []"
    by (simp add: dispatch_def process_issued example_defs)
  have fails: "apiCall_result (server ?env (requests ?s @ [hd (issued (dispatch JS ?env ProcessClick) ?s)]))
      = Inl (TypeError ''Failed to fetch'')"
    by (simp add: browser_of_def answers_def apiCall_result_def)
  note t = backend_failure_caught [where v = JS and ev = ProcessClick and env = ?env and s = ?s
      and e = "TypeError ''Failed to fetch''"]
  from t sent fails
  have "fst (dispatch JS ?env ProcessClick ?s) = Inr ()"
    and "alerts (snd (dispatch JS ?env ProcessClick ?s))
      = alerts ?s @ [cross_mark @ '' Error adding document: '' @ error_message (TypeError ''Failed to fetch'')]"
    by simp_all
  with sent show ?thesis by (simp add: blank_page_def)
qed

subsection \<open>A selection of several files\<close>



end
